theory Spec2Isabelle
  imports Complex_Main "HOL-Library.Log_Nat"
begin

section \<open>JavaScript values used by the client\<close>

text \<open>
  Payloads exchanged with the remote service are JSON documents. An object is an
  association list read with \<open>map_of\<close>; numbers inside payloads are integers.
\<close>

datatype json =
    JNull
  | JBool bool
  | JNum int
  | JStr string
  | JArr "json list"
  | JObj "(string \<times> json) list"

text \<open>JavaScript truthiness, as used by \<open>||\<close>, \<open>!\<close> and \<open>if (data)\<close>.\<close>

fun truthy :: "json \<Rightarrow> bool" where
  "truthy JNull = False"
| "truthy (JBool b) = b"
| "truthy (JNum n) = (n \<noteq> 0)"
| "truthy (JStr s) = (s \<noteq> [])"
| "truthy (JArr _) = True"
| "truthy (JObj _) = True"

text \<open>
  \<open>v?.k\<close>: reading a property through optional chaining. \<open>None\<close> is \<open>undefined\<close>;
  the keys read by the client (\<open>message\<close>) are no properties of strings, numbers or arrays.
\<close>

fun opt_prop :: "json \<Rightarrow> string \<Rightarrow> json option" where
  "opt_prop (JObj kvs) k = map_of kvs k"
| "opt_prop _ k = None"

text \<open>\<open>x || d\<close> where \<open>x\<close> may be \<open>undefined\<close>.\<close>

definition or_default :: "json option \<Rightarrow> json \<Rightarrow> json" where
  "or_default x d = (case x of None \<Rightarrow> d | Some v \<Rightarrow> if truthy v then v else d)"

subsection \<open>Decimal rendering of non-negative integers\<close>

definition digit :: "nat \<Rightarrow> char" where
  "digit n = ''0123456789'' ! (n mod 10)"

fun string_of_nat :: "nat \<Rightarrow> string" where
  "string_of_nat n = (if n < 10 then [digit n] else string_of_nat (n div 10) @ [digit n])"

declare string_of_nat.simps [simp del]

subsection \<open>Base64, as produced by \<open>Buffer.from(s).toString('base64')\<close>\<close>

definition base64_alphabet :: string where
  "base64_alphabet = ''ABCDEFGHIJKLMNOPQRSTUVWXYZabcdefghijklmnopqrstuvwxyz0123456789+/''"

definition sextet :: "nat \<Rightarrow> char" where
  "sextet n = base64_alphabet ! (n mod 64)"

fun base64_bytes :: "nat list \<Rightarrow> string" where
  "base64_bytes [] = []"
| "base64_bytes [a] = [sextet (a div 4), sextet ((a mod 4) * 16), CHR ''='', CHR ''='']"
| "base64_bytes [a, b] =
     [sextet (a div 4), sextet ((a mod 4) * 16 + b div 16), sextet ((b mod 16) * 4), CHR ''='']"
| "base64_bytes (a # b # c # rest) =
     [sextet (a div 4), sextet ((a mod 4) * 16 + b div 16),
      sextet ((b mod 16) * 4 + c div 64), sextet c] @ base64_bytes rest"

definition base64 :: "string \<Rightarrow> string" where
  "base64 s = base64_bytes (map of_char s)"

section \<open>The gateway client and its surroundings\<close>

subsection \<open>Requests, replies and the world outside the client\<close>

datatype body = NoBody | FormBody string | JsonBody json

record http_request =
  req_method :: string
  req_url :: string
  req_headers :: "(string \<times> string) list"
  req_body :: body
  req_timeout :: "nat option"

text \<open>
  What the network gives back to an API call: nothing at all (with the transport's
  message), or a status with a decoded payload.
\<close>

datatype reply = NoResponse string | Response nat json

text \<open>
  What the token endpoint gives back: a grant following the OAuth2 schema (a bearer string
  and a lifetime in seconds), or a refusal, carried as the text that the source reads with
  \<open>error.response?.data?.error_description || error.message\<close>.
\<close>

datatype token_outcome = Granted string int | Refused string

text \<open>
  The world: the wall clock read by \<open>Date.now()\<close> (milliseconds), the requests put
  on the wire so far, and the waits passed to \<open>setTimeout\<close> so far.
\<close>

record world =
  clock :: nat
  sent :: "http_request list"
  slept :: "nat list"

text \<open>
  The remote service: for the world at the moment of sending and the request, the outcome
  and the time it takes to arrive.
\<close>

record remote =
  token_endpoint :: "world \<Rightarrow> http_request \<Rightarrow> token_outcome \<times> nat"
  api_endpoint :: "world \<Rightarrow> http_request \<Rightarrow> reply \<times> nat"

definition transmit :: "http_request \<Rightarrow> nat \<Rightarrow> world \<Rightarrow> world" where
  "transmit rq elapsed w = w\<lparr>clock := clock w + elapsed, sent := sent w @ [rq]\<rparr>"

definition setTimeout :: "nat \<Rightarrow> world \<Rightarrow> world" where
  "setTimeout ms w = w\<lparr>clock := clock w + ms, slept := slept w @ [ms]\<rparr>"

subsection \<open>The HTTP library\<close>

record http_response =
  status :: nat
  data :: json

text \<open>The error object of a rejected call: \<open>error.message\<close> and \<open>error.response\<close>.\<close>

record axios_error =
  err_message :: string
  response :: "http_response option"

datatype axios_result = Resolved http_response | Rejected axios_error

text \<open>
  \<open>axios(config)\<close>: a status from 200 to 299 resolves, any other status rejects with
  the response attached, no reply rejects without one. A configured timeout that runs out
  before the reply arrives rejects without a response when it runs out.
\<close>

definition timed_out :: "nat option \<Rightarrow> nat \<Rightarrow> bool" where
  "timed_out t elapsed = (case t of None \<Rightarrow> False | Some ms \<Rightarrow> 0 < ms \<and> ms < elapsed)"

definition settle :: "reply \<Rightarrow> axios_result" where
  "settle rp =
     (case rp of
        NoResponse msg \<Rightarrow> Rejected \<lparr>err_message = msg, response = None\<rparr>
      | Response st d \<Rightarrow>
          if 200 \<le> st \<and> st < 300 then Resolved \<lparr>status = st, data = d\<rparr>
          else Rejected \<lparr>err_message = ''Request failed with status code '' @ string_of_nat st,
                         response = Some \<lparr>status = st, data = d\<rparr>\<rparr>)"

definition axios :: "remote \<Rightarrow> http_request \<Rightarrow> world \<Rightarrow> axios_result \<times> world" where
  "axios R rq w =
     (let (rp, elapsed) = api_endpoint R w rq in
      if timed_out (req_timeout rq) elapsed
      then (Rejected \<lparr>err_message = ''timeout of '' @ string_of_nat (the (req_timeout rq)) @ ''ms exceeded'',
                      response = None\<rparr>,
            transmit rq (the (req_timeout rq)) w)
      else (settle rp, transmit rq elapsed w))"

text \<open>\<open>axios.post\<close> to the token endpoint; the source sets no timeout on it.\<close>

definition axios_post_token :: "remote \<Rightarrow> http_request \<Rightarrow> world \<Rightarrow> token_outcome \<times> world" where
  "axios_post_token R rq w =
     (let (out, elapsed) = token_endpoint R w rq in (out, transmit rq elapsed w))"

subsection \<open>Client state and errors\<close>

text \<open>
  The \<open>config\<close> object of the constructor; of its fields only the advanced settings
  concern the request pipeline, the branding and address defaults are left out.
\<close>

record config =
  timeout :: nat
  retryAttempts :: nat

text \<open>
  The fields of the client object. The \<open>debug\<close> flag only switches console output on,
  which changes nothing here, and is left out together with that output.
\<close>

record client =
  clientId :: string
  clientSecret :: string
  mode :: string
  baseURL :: string
  config :: config
  accessToken :: "string option"
  tokenExpiry :: "int option"
  requestCounter :: nat
  rateLimitCount :: nat
  rateLimitWindow :: nat
  maxRequestsPerMinute :: nat

datatype error_type =
    NETWORK_ERROR
  | BAD_REQUEST
  | AUTHENTICATION_FAILURE
  | AUTHORIZATION_FAILURE
  | NOT_FOUND
  | VALIDATION_ERROR
  | RATE_LIMIT_EXCEEDED
  | INTERNAL_SERVER_ERROR
  | UNKNOWN_ERROR

text \<open>
  The object returned by \<open>parseError\<close>. \<open>pe_status = None\<close> is a missing \<open>status\<close>
  property; \<open>details\<close> is \<open>null\<close> or the response payload.
\<close>

record parsed_error =
  pe_type :: error_type
  pe_message :: json
  pe_details :: json
  pe_status :: "nat option"

text \<open>
  The errors the client throws. \<open>ApiError\<close> is the enhanced error of \<open>makeRequest\<close>
  with its \<open>type\<close>, \<open>status\<close>, \<open>details\<close> and \<open>requestId\<close> properties; its message
  text is built from the type and the parsed message, which is kept here as it was parsed.
\<close>

datatype js_error =
    MissingCredentials
  | TypeError
  | RateLimitError
  | AuthError string
  | ApiError error_type json "nat option" json string

subsection \<open>Construction\<close>

text \<open>
  The options object and the process environment, reduced to the properties the request
  pipeline depends on. A missing property is \<open>None\<close>; counts and durations are natural
  numbers, and the numeric environment variables are given as \<open>parseInt\<close> returns them
  (\<open>None\<close> for \<open>NaN\<close>).
\<close>

record options =
  opt_clientId :: "string option"
  opt_clientSecret :: "string option"
  opt_mode :: "string option"
  opt_timeout :: "nat option"
  opt_retryAttempts :: "nat option"
  opt_maxRequestsPerMinute :: "nat option"

record process_env =
  PAYPAL_CLIENT_ID :: "string option"
  PAYPAL_CLIENT_SECRET :: "string option"
  PAYPAL_MODE :: "string option"
  PAYPAL_TIMEOUT :: "nat option"
  PAYPAL_RETRY_ATTEMPTS :: "nat option"

text \<open>\<open>a || b\<close> on optional strings and numbers: the first truthy operand, else the last.\<close>

definition str_or :: "string option \<Rightarrow> string option \<Rightarrow> string option" where
  "str_or a b = (case a of Some s \<Rightarrow> if s \<noteq> [] then Some s else b | None \<Rightarrow> b)"

definition num_or :: "nat option \<Rightarrow> nat option \<Rightarrow> nat option" where
  "num_or a b = (case a of Some n \<Rightarrow> if n \<noteq> 0 then Some n else b | None \<Rightarrow> b)"

definition falsy_str :: "string option \<Rightarrow> bool" where
  "falsy_str a = (case a of Some s \<Rightarrow> s = [] | None \<Rightarrow> True)"

definition new_EasyPayPal :: "options \<Rightarrow> process_env \<Rightarrow> world \<Rightarrow> js_error + client" where
  "new_EasyPayPal opts env w =
     (let cid = str_or (opt_clientId opts) (PAYPAL_CLIENT_ID env);
          secret = str_or (opt_clientSecret opts) (PAYPAL_CLIENT_SECRET env);
          md = the (str_or (opt_mode opts) (str_or (PAYPAL_MODE env) (Some ''sandbox'')))
      in if falsy_str cid \<or> falsy_str secret then Inl MissingCredentials
         else Inr \<lparr>clientId = the cid,
                   clientSecret = the secret,
                   mode = md,
                   baseURL = (if md = ''live'' then ''https://api-m.paypal.com''
                              else ''https://api-m.sandbox.paypal.com''),
                   config = \<lparr>timeout = the (num_or (opt_timeout opts)
                                               (num_or (PAYPAL_TIMEOUT env) (Some 30000))),
                             retryAttempts = the (num_or (opt_retryAttempts opts)
                                                     (num_or (PAYPAL_RETRY_ATTEMPTS env) (Some 3)))\<rparr>,
                   accessToken = None,
                   tokenExpiry = None,
                   requestCounter = 0,
                   rateLimitCount = 0,
                   rateLimitWindow = clock w,
                   maxRequestsPerMinute = the (num_or (opt_maxRequestsPerMinute opts) (Some 1000))\<rparr>)"

subsection \<open>getAccessToken\<close>

text \<open>
  The guard \<open>this.accessToken && this.tokenExpiry && Date.now() < this.tokenExpiry\<close>:
  a cached token is a non-empty string, a stored expiry a non-zero number.
\<close>

definition token_fresh :: "client \<Rightarrow> world \<Rightarrow> bool" where
  "token_fresh c w =
     (case accessToken c of
        None \<Rightarrow> False
      | Some t \<Rightarrow> t \<noteq> [] \<and>
          (case tokenExpiry c of None \<Rightarrow> False | Some e \<Rightarrow> e \<noteq> 0 \<and> int (clock w) < e))"

definition token_request :: "client \<Rightarrow> http_request" where
  "token_request c =
     (let auth = base64 (clientId c @ '':'' @ clientSecret c) in
      \<lparr>req_method = ''POST'',
       req_url = baseURL c @ ''/v1/oauth2/token'',
       req_headers = [(''Authorization'', ''Basic '' @ auth),
                      (''Content-Type'', ''application/x-www-form-urlencoded'')],
       req_body = FormBody ''grant_type=client_credentials'',
       req_timeout = None\<rparr>)"

definition getAccessToken :: "remote \<Rightarrow> client \<Rightarrow> world \<Rightarrow> (js_error + string) \<times> client \<times> world" where
  "getAccessToken R c w =
     (if token_fresh c w then (Inr (the (accessToken c)), c, w)
      else
        (let (out, w') = axios_post_token R (token_request c) w in
         case out of
           Granted access_token expires_in \<Rightarrow>
             (Inr access_token,
              c\<lparr>accessToken := Some access_token,
                tokenExpiry := Some (int (clock w') + expires_in * 1000 - 60000)\<rparr>,
              w')
         | Refused description \<Rightarrow> (Inl (AuthError description), c, w')))"

subsection \<open>checkRateLimit\<close>

definition checkRateLimit :: "client \<Rightarrow> world \<Rightarrow> (js_error + unit) \<times> client" where
  "checkRateLimit c w =
     (let now = clock w;
          windowDuration = 60 * 1000;
          c1 = (if int now - int (rateLimitWindow c) > windowDuration
                then c\<lparr>rateLimitWindow := now, rateLimitCount := 0\<rparr> else c)
      in if rateLimitCount c1 \<ge> maxRequestsPerMinute c1 then (Inl RateLimitError, c1)
         else (Inr (), c1\<lparr>rateLimitCount := rateLimitCount c1 + 1\<rparr>))"

subsection \<open>parseError\<close>

definition parseError :: "axios_error \<Rightarrow> client \<Rightarrow> parsed_error \<times> client" where
  "parseError error c =
     (case response error of
        None \<Rightarrow>
          (\<lparr>pe_type = NETWORK_ERROR, pe_message = JStr (err_message error),
            pe_details = JNull, pe_status = None\<rparr>, c)
      | Some r \<Rightarrow>
          (let st = status r;
               d = data r;
               (errorType, message, c') =
                 (if st = 400 then
                    (BAD_REQUEST,
                     or_default (opt_prop d ''message'') (JStr ''Invalid request parameters''), c)
                  else if st = 401 then
                    (AUTHENTICATION_FAILURE,
                     JStr ''Authentication failed. Check your credentials.'',
                     c\<lparr>accessToken := None\<rparr>)
                  else if st = 403 then
                    (AUTHORIZATION_FAILURE, JStr ''Access forbidden. Check your permissions.'', c)
                  else if st = 404 then
                    (NOT_FOUND, JStr ''Resource not found'', c)
                  else if st = 422 then
                    (VALIDATION_ERROR, or_default (opt_prop d ''message'') (JStr ''Validation error''), c)
                  else if st = 429 then
                    (RATE_LIMIT_EXCEEDED, JStr ''Rate limit exceeded. Please retry after some time.'', c)
                  else if st = 500 then
                    (INTERNAL_SERVER_ERROR, JStr ''PayPal server error. Please try again later.'', c)
                  else
                    (UNKNOWN_ERROR,
                     or_default (opt_prop d ''message'')
                       (JStr (''HTTP '' @ string_of_nat st @ '' error'')), c))
           in (\<lparr>pe_type = errorType, pe_message = message, pe_details = d, pe_status = Some st\<rparr>,
               c')))"

subsection \<open>makeRequest\<close>

definition api_request :: "client \<Rightarrow> string \<Rightarrow> string \<Rightarrow> json \<Rightarrow> string \<Rightarrow> string \<Rightarrow> http_request" where
  "api_request c method endpoint payload token requestId =
     \<lparr>req_method = method,
      req_url = baseURL c @ endpoint,
      req_headers = [(''Authorization'', ''Bearer '' @ token),
                     (''Content-Type'', ''application/json''),
                     (''PayPal-Request-Id'', requestId),
                     (''Prefer'', ''return=representation'')],
      req_body = (if truthy payload then JsonBody payload else NoBody),
      req_timeout = Some 30000\<rparr>"

function makeRequest ::
  "remote \<Rightarrow> string \<Rightarrow> string \<Rightarrow> json \<Rightarrow> nat \<Rightarrow> client \<Rightarrow> world
     \<Rightarrow> (js_error + json) \<times> client \<times> world" where
  "makeRequest R method endpoint payload retryCount c w =
     (case checkRateLimit c w of
        (Inl e, c1) \<Rightarrow> (Inl e, c1, w)
      | (Inr _, c1) \<Rightarrow>
          (case getAccessToken R c1 w of
             (Inl e, c2, w2) \<Rightarrow> (Inl e, c2, w2)
           | (Inr token, c2, w2) \<Rightarrow>
               (let c3 = c2\<lparr>requestCounter := requestCounter c2 + 1\<rparr>;
                    requestId = string_of_nat (requestCounter c3) @ ''-'' @ string_of_nat (clock w2)
                in case axios R (api_request c3 method endpoint payload token requestId) w2 of
                     (Resolved resp, w3) \<Rightarrow> (Inr (data resp), c3, w3)
                   | (Rejected error, w3) \<Rightarrow>
                       (case parseError error c3 of
                          (parsedError, c4) \<Rightarrow>
                            if retryCount < 3 \<and>
                               (pe_type parsedError = AUTHENTICATION_FAILURE \<or>
                                pe_status parsedError = Some 500)
                            then makeRequest R method endpoint payload (retryCount + 1) c4
                                   (setTimeout (2 ^ retryCount * 1000) w3)
                            else (Inl (ApiError (pe_type parsedError) (pe_message parsedError)
                                         (pe_status parsedError) (pe_details parsedError) requestId),
                                  c4, w3)))))"
  by pat_completeness auto
termination
  by (relation "measure (\<lambda>(R, method, endpoint, payload, retryCount, c, w). 3 - retryCount)") auto

subsection \<open>verifyWebhook\<close>

text \<open>\<open>v.k\<close> without optional chaining: reading a property of \<open>null\<close> throws.\<close>

definition read_prop :: "json \<Rightarrow> string \<Rightarrow> js_error + json option" where
  "read_prop v k = (if v = JNull then Inl TypeError else Inr (opt_prop v k))"

text \<open>
  The \<open>headers\<close> argument: \<open>undefined\<close>, \<open>null\<close>, or an object with its properties.
  \<open>headers[k]\<close> throws a \<open>TypeError\<close> on the first two, and is \<open>undefined\<close> for a
  name the object has no property of.
\<close>

datatype headers_value =
    HeadersUndefined
  | HeadersNull
  | HeadersObject "(string \<times> string) list"

definition header :: "headers_value \<Rightarrow> string \<Rightarrow> js_error + string option" where
  "header headers k =
     (case headers of
        HeadersUndefined \<Rightarrow> Inl TypeError
      | HeadersNull \<Rightarrow> Inl TypeError
      | HeadersObject kvs \<Rightarrow> Inr (map_of kvs k))"

text \<open>A header that is not there is \<open>undefined\<close>, and leaves no property in the payload.\<close>

definition header_field :: "string \<Rightarrow> string option \<Rightarrow> (string \<times> json) list" where
  "header_field k v = (case v of None \<Rightarrow> [] | Some s \<Rightarrow> [(k, JStr s)])"

text \<open>
  The object literal \<open>verificationData\<close>, built before the \<open>try\<close> block is entered:
  its property values are evaluated in order, and the first header read that throws ends
  the construction.
\<close>

definition verificationData :: "headers_value \<Rightarrow> json \<Rightarrow> string \<Rightarrow> js_error + json" where
  "verificationData headers event webhookId =
     (case header headers ''paypal-auth-algo'' of Inl e \<Rightarrow> Inl e | Inr auth_algo \<Rightarrow>
      case header headers ''paypal-cert-id'' of Inl e \<Rightarrow> Inl e | Inr cert_id \<Rightarrow>
      case header headers ''paypal-transmission-id'' of Inl e \<Rightarrow> Inl e | Inr transmission_id \<Rightarrow>
      case header headers ''paypal-transmission-sig'' of Inl e \<Rightarrow> Inl e | Inr transmission_sig \<Rightarrow>
      case header headers ''paypal-transmission-time'' of Inl e \<Rightarrow> Inl e | Inr transmission_time \<Rightarrow>
        Inr (JObj (header_field ''auth_algo'' auth_algo @
                   header_field ''cert_id'' cert_id @
                   header_field ''transmission_id'' transmission_id @
                   header_field ''transmission_sig'' transmission_sig @
                   header_field ''transmission_time'' transmission_time @
                   [(''webhook_id'', JStr webhookId), (''webhook_event'', event)])))"

text \<open>
  An error thrown while \<open>verificationData\<close> is built leaves the function; inside the
  \<open>try\<close> block every error is caught and answered with \<open>false\<close>.
\<close>

definition verifyWebhook ::
  "remote \<Rightarrow> headers_value \<Rightarrow> json \<Rightarrow> string \<Rightarrow> client \<Rightarrow> world
     \<Rightarrow> (js_error + bool) \<times> client \<times> world" where
  "verifyWebhook R headers event webhookId c w =
     (case verificationData headers event webhookId of
        Inl error \<Rightarrow> (Inl error, c, w)
      | Inr payload \<Rightarrow>
          (case makeRequest R ''POST'' ''/v1/notifications/verify-webhook-signature'' payload 0 c w of
             (Inr result, c', w') \<Rightarrow>
               (case read_prop result ''verification_status'' of
                  Inr v \<Rightarrow> (Inr (v = Some (JStr ''SUCCESS'')), c', w')
                | Inl error \<Rightarrow> (Inr False, c', w'))
           | (Inl error, c', w') \<Rightarrow> (Inr False, c', w')))"

declare makeRequest.simps [simp del]

text \<open>
  One pass through the body of \<open>makeRequest\<close>, up to the point where the catch block
  decides between retrying and throwing: it threw before dispatching, it returned the
  decoded payload, or the dispatched call failed with a parsed error under a request id.
\<close>

datatype pass = Threw js_error | Returned json | Failed parsed_error string

definition dispatch ::
  "remote \<Rightarrow> string \<Rightarrow> string \<Rightarrow> json \<Rightarrow> client \<Rightarrow> world \<Rightarrow> pass \<times> client \<times> world" where
  "dispatch R method endpoint payload c w =
     (case checkRateLimit c w of
        (Inl e, c1) \<Rightarrow> (Threw e, c1, w)
      | (Inr _, c1) \<Rightarrow>
          (case getAccessToken R c1 w of
             (Inl e, c2, w2) \<Rightarrow> (Threw e, c2, w2)
           | (Inr token, c2, w2) \<Rightarrow>
               (let c3 = c2\<lparr>requestCounter := requestCounter c2 + 1\<rparr>;
                    requestId = string_of_nat (requestCounter c3) @ ''-'' @ string_of_nat (clock w2)
                in case axios R (api_request c3 method endpoint payload token requestId) w2 of
                     (Resolved resp, w3) \<Rightarrow> (Returned (data resp), c3, w3)
                   | (Rejected error, w3) \<Rightarrow>
                       (case parseError error c3 of
                          (parsedError, c4) \<Rightarrow> (Failed parsedError requestId, c4, w3)))))"

text \<open>The condition under which the catch block of \<open>makeRequest\<close> retries.\<close>

definition retried :: "nat \<Rightarrow> parsed_error \<Rightarrow> bool" where
  "retried retryCount parsedError =
     (retryCount < 3 \<and>
      (pe_type parsedError = AUTHENTICATION_FAILURE \<or> pe_status parsedError = Some 500))"

text \<open>The headers of a request that identify its credentials and its correlation id.\<close>

definition authorization :: "http_request \<Rightarrow> string option" where
  "authorization rq = map_of (req_headers rq) ''Authorization''"

definition request_id :: "http_request \<Rightarrow> string option" where
  "request_id rq = map_of (req_headers rq) ''PayPal-Request-Id''"

text \<open>A series of throttle checks, one for each world the client finds on a call.\<close>

fun checkRateLimit_series :: "client \<Rightarrow> world list \<Rightarrow> (js_error + unit) list \<times> client" where
  "checkRateLimit_series c [] = ([], c)"
| "checkRateLimit_series c (w # ws) =
     (case checkRateLimit c w of
        (r, c') \<Rightarrow> (case checkRateLimit_series c' ws of (rs, c'') \<Rightarrow> (r # rs, c'')))"




subsection \<open>Scripted surroundings\<close>

text \<open>
  A remote service that follows a script: the n-th API call gets the n-th reply of the
  script after 50 ms, and no reply once the script is used up; the n-th token exchange is
  granted the bearer string \<open>token-n\<close> for an hour, after 100 ms.
\<close>

definition is_exchange :: "http_request \<Rightarrow> bool" where
  "is_exchange rq = (case req_body rq of FormBody _ \<Rightarrow> True | _ \<Rightarrow> False)"

definition exchanges :: "world \<Rightarrow> http_request list" where
  "exchanges w = filter is_exchange (sent w)"

definition api_calls :: "world \<Rightarrow> http_request list" where
  "api_calls w = filter (\<lambda>rq. \<not> is_exchange rq) (sent w)"

definition scripted :: "reply list \<Rightarrow> remote" where
  "scripted script =
     \<lparr>token_endpoint =
        (\<lambda>w rq. (Granted (''token-'' @ string_of_nat (Suc (length (exchanges w)))) 3600, 100)),
      api_endpoint =
        (\<lambda>w rq. (if length (api_calls w) < length script then script ! length (api_calls w)
                  else NoResponse ''socket hang up'', 50))\<rparr>"


definition bare_env :: process_env where
  "bare_env =
     \<lparr>PAYPAL_CLIENT_ID = None, PAYPAL_CLIENT_SECRET = None, PAYPAL_MODE = None,
      PAYPAL_TIMEOUT = None, PAYPAL_RETRY_ATTEMPTS = None\<rparr>"

definition at_time :: "nat \<Rightarrow> world" where
  "at_time t = \<lparr>clock = t, sent = [], slept = []\<rparr>"

text \<open>The client that \<open>new EasyPayPal(shop_options)\<close> builds at time 5000.\<close>

definition shop_client :: client where
  "shop_client =
     \<lparr>clientId = ''id'', clientSecret = ''secret'', mode = ''sandbox'',
      baseURL = ''https://api-m.sandbox.paypal.com'',
      config = \<lparr>timeout = 30000, retryAttempts = 3\<rparr>,
      accessToken = None, tokenExpiry = None, requestCounter = 0,
      rateLimitCount = 0, rateLimitWindow = 5000, maxRequestsPerMinute = 2\<rparr>"

text \<open>
  The advanced settings of the repository's customization example: a 45 second timeout,
  five retry attempts and 800 requests per minute.
\<close>

definition custom_options :: options where
  "custom_options =
     \<lparr>opt_clientId = Some ''id'', opt_clientSecret = Some ''secret'', opt_mode = None,
      opt_timeout = Some 45000, opt_retryAttempts = Some 5, opt_maxRequestsPerMinute = Some 800\<rparr>"

definition custom_client :: client where
  "custom_client =
     shop_client\<lparr>config := \<lparr>timeout = 45000, retryAttempts = 5\<rparr>, maxRequestsPerMinute := 800\<rparr>"

text \<open>
  The same client after its k-th dispatched call under the first granted token, and the
  k-th request it sends for order 7.
\<close>

definition served :: "nat \<Rightarrow> client" where
  "served k =
     custom_client\<lparr>accessToken := Some ''token-1'', tokenExpiry := Some 3545100,
                    requestCounter := k, rateLimitCount := k\<rparr>"

definition order_request :: "nat \<Rightarrow> string \<Rightarrow> http_request" where
  "order_request k requestId =
     api_request (served k) ''GET'' ''/v2/checkout/orders/7'' JNull ''token-1'' requestId"

definition server_error :: parsed_error where
  "server_error =
     \<lparr>pe_type = INTERNAL_SERVER_ERROR,
      pe_message = JStr ''PayPal server error. Please try again later.'',
      pe_details = JNull, pe_status = Some 500\<rparr>"


section \<open>The helper methods\<close>

subsection \<open>Numbers\<close>

text \<open>
  A Number is \<open>NaN\<close>, an infinity, or a finite value, given by the rational it stands
  for. Comparisons involving \<open>NaN\<close> are false.
\<close>

datatype js_number = NaN | PosInfinity | NegInfinity | Finite rat

fun js_le :: "js_number \<Rightarrow> js_number \<Rightarrow> bool" where
  "js_le NaN _ = False"
| "js_le _ NaN = False"
| "js_le NegInfinity _ = True"
| "js_le _ PosInfinity = True"
| "js_le PosInfinity _ = False"
| "js_le _ NegInfinity = False"
| "js_le (Finite a) (Finite b) = (a \<le> b)"

definition js_ge :: "js_number \<Rightarrow> js_number \<Rightarrow> bool" where
  "js_ge a b = js_le b a"

text \<open>The values an argument can be; \<open>JSObject\<close> is any object that is no function.\<close>

datatype js_value =
    JSUndefined
  | JSNull
  | JSBoolean bool
  | JSNumber js_number
  | JSString string
  | JSFunction
  | JSObject

fun js_typeof :: "js_value \<Rightarrow> string" where
  "js_typeof JSUndefined = ''undefined''"
| "js_typeof JSNull = ''object''"
| "js_typeof (JSBoolean _) = ''boolean''"
| "js_typeof (JSNumber _) = ''number''"
| "js_typeof (JSString _) = ''string''"
| "js_typeof JSFunction = ''function''"
| "js_typeof JSObject = ''object''"

subsection \<open>validateAmount\<close>

text \<open>
  The object literal \<open>minimums\<close> has four properties of its own, and, like every object
  literal, inherits those of \<open>Object.prototype\<close>: looking up one of their names finds a
  function (for \<open>__proto__\<close>, the prototype object) instead of \<open>undefined\<close>.
\<close>

definition minimums :: "(string \<times> rat) list" where
  "minimums = [(''USD'', 100), (''EUR'', 100), (''GBP'', 100), (''JPY'', 100)]"

definition Object_prototype :: "string list" where
  "Object_prototype =
     [''constructor'', ''__defineGetter__'', ''__defineSetter__'', ''hasOwnProperty'',
      ''__lookupGetter__'', ''__lookupSetter__'', ''isPrototypeOf'', ''propertyIsEnumerable'',
      ''toString'', ''valueOf'', ''__proto__'', ''toLocaleString'']"

definition minimums_get :: "string \<Rightarrow> js_value" where
  "minimums_get currency =
     (case map_of minimums currency of
        Some m \<Rightarrow> JSNumber (Finite m)
      | None \<Rightarrow>
          if currency = ''__proto__'' then JSObject
          else if currency \<in> set Object_prototype then JSFunction
          else JSUndefined)"

text \<open>
  \<open>minimums[currency] || 100\<close>, as the right operand of \<open>>=\<close>: a number stays what it
  is unless it is zero, \<open>undefined\<close> gives way to 100, and a function or an object
  is truthy and converts to \<open>NaN\<close> in the comparison.
\<close>

definition minimum_operand :: "js_value \<Rightarrow> js_number" where
  "minimum_operand v =
     (case v of
        JSNumber (Finite m) \<Rightarrow> if m = 0 then Finite 100 else Finite m
      | JSUndefined \<Rightarrow> Finite 100
      | _ \<Rightarrow> NaN)"

definition validateAmount :: "js_value \<Rightarrow> string \<Rightarrow> bool" where
  "validateAmount amount currency =
     (if js_typeof amount \<noteq> ''number'' then False
      else case amount of
        JSNumber n \<Rightarrow>
          if js_le n (Finite 0) then False
          else js_ge n (minimum_operand (minimums_get currency))
      | _ \<Rightarrow> False)"

subsection \<open>formatCurrency\<close>

text \<open>
  Division of Numbers rounds the exact quotient to the nearest binary64 value, ties to the
  even significand. For operands that are integers, the dividend not zero and the divisor
  positive, the quotient lies in the normal range: its binade \<open>e\<close> has
  \<open>2^e \<le> |a / b| < 2^(e + 1)\<close>, and the values there are the multiples of
  \<open>2^(e - 52)\<close>.
\<close>

definition round_half_even :: "rat \<Rightarrow> int" where
  "round_half_even r =
     (let f = \<lfloor>r\<rfloor>; d = r - of_int f
      in if d < 1 / 2 then f else if 1 / 2 < d then f + 1 else if even f then f else f + 1)"

definition binade :: "int \<Rightarrow> int \<Rightarrow> int" where
  "binade a b =
     (let k = bitlen a - bitlen b
      in if (2 powi k) * (of_int b :: rat) \<le> of_int a then k else k - 1)"

definition js_divide :: "int \<Rightarrow> int \<Rightarrow> rat" where
  "js_divide a b =
     (if a = 0 then 0
      else let ulp = 2 powi (binade \<bar>a\<bar> b - 52)
           in of_int (sgn a) * of_int (round_half_even (of_int \<bar>a\<bar> / of_int b / ulp)) * ulp)"

text \<open>
  \<open>x.toFixed(2)\<close> for a finite \<open>x\<close>: below \<open>10^21\<close> in magnitude, the digits of the
  integer \<open>n\<close> nearest to \<open>100 * |x|\<close> (the larger one on a tie), padded to three
  digits, with the point before the last two and the sign in front. From \<open>10^21\<close> on
  the result is the text of \<open>Number.prototype.toString\<close>, in exponent notation, which
  is kept as the number it is the text of.
\<close>

datatype number_text = Digits string | ExponentNotation rat

definition toFixed2 :: "rat \<Rightarrow> number_text" where
  "toFixed2 x =
     (let s = (if x < 0 then ''-'' else []);
          y = \<bar>x\<bar>
      in if 10 ^ 21 \<le> y then ExponentNotation x
         else
           (let n = nat \<lfloor>y * 100 + 1 / 2\<rfloor>;
                m = string_of_nat n;
                m = (if length m \<le> 2 then replicate (3 - length m) CHR ''0'' @ m else m);
                k = length m
            in Digits (s @ take (k - 2) m @ ''.'' @ drop (k - 2) m)))"

record money =
  currency_code :: string
  value_text :: number_text

text \<open>\<open>formatCurrency(amount, currency)\<close> for an amount that is an integer.\<close>

definition formatCurrency :: "int \<Rightarrow> string \<Rightarrow> money" where
  "formatCurrency amount currency =
     \<lparr>currency_code = currency, value_text = toFixed2 (js_divide amount 100)\<rparr>"

text \<open>
  The decimal text of \<open>amount / 100\<close> with two digits after the point, as the
  specification words it.
\<close>

definition two_decimals :: "int \<Rightarrow> string" where
  "two_decimals amount =
     (if amount < 0 then ''-'' else []) @
     string_of_nat (nat \<bar>amount\<bar> div 100) @ ''.'' @
     [digit (nat \<bar>amount\<bar> div 10), digit (nat \<bar>amount\<bar>)]"

section \<open>Properties\<close>

subsection \<open>The body of makeRequest as one pass and a decision\<close>

lemma makeRequest_dispatch:
  "makeRequest R method endpoint payload retryCount c w =
     (case dispatch R method endpoint payload c w of
        (Threw e, c', w') \<Rightarrow> (Inl e, c', w')
      | (Returned d, c', w') \<Rightarrow> (Inr d, c', w')
      | (Failed parsedError requestId, c', w') \<Rightarrow>
          if retried retryCount parsedError
          then makeRequest R method endpoint payload (retryCount + 1) c'
                 (setTimeout (2 ^ retryCount * 1000) w')
          else (Inl (ApiError (pe_type parsedError) (pe_message parsedError)
                       (pe_status parsedError) (pe_details parsedError) requestId), c', w'))"
  by (subst makeRequest.simps)
     (auto simp: dispatch_def retried_def Let_def split: prod.splits sum.splits axios_result.splits)

text \<open>Rewrite rules that run the client on closed inputs.\<close>

lemmas makeRequest_unrolled =
  makeRequest_dispatch [where retryCount = 0]
  makeRequest_dispatch [where retryCount = "Suc 0"]
  makeRequest_dispatch [where retryCount = "Suc (Suc 0)"]
  makeRequest_dispatch [where retryCount = "Suc (Suc (Suc 0))"]

lemmas evaluation =
  dispatch_def retried_def checkRateLimit_def getAccessToken_def token_fresh_def
  token_request_def axios_post_token_def axios_def settle_def timed_out_def transmit_def
  setTimeout_def parseError_def api_request_def scripted_def exchanges_def api_calls_def
  is_exchange_def shop_client_def custom_client_def at_time_def string_of_nat.simps digit_def
  Let_def base64_def sextet_def base64_alphabet_def or_default_def served_def order_request_def
  server_error_def authorization_def request_id_def verifyWebhook_def read_prop_def
  verificationData_def header_def header_field_def

subsection \<open>The rate counter under each operation\<close>









subsection \<open>Throttle checks inside one window\<close>

lemma checkRateLimit_in_window:
  assumes "int (clock w) - int (rateLimitWindow c) \<le> 60000"
  shows "checkRateLimit c w =
           (if maxRequestsPerMinute c \<le> rateLimitCount c then (Inl RateLimitError, c)
            else (Inr (), c\<lparr>rateLimitCount := rateLimitCount c + 1\<rparr>))"
  using assms by (simp add: checkRateLimit_def Let_def)

lemma checkRateLimit_series_Cons:
  "fst (checkRateLimit_series c (w # ws)) =
     fst (checkRateLimit c w) # fst (checkRateLimit_series (snd (checkRateLimit c w)) ws)"
  by (simp split: prod.splits)

lemma checkRateLimit_series_in_window:
  assumes "\<forall>w \<in> set ws. int (clock w) - int (rateLimitWindow c) \<le> 60000"
  shows "fst (checkRateLimit_series c ws) =
           replicate (min (length ws) (maxRequestsPerMinute c - rateLimitCount c)) (Inr ()) @
           replicate (length ws - (maxRequestsPerMinute c - rateLimitCount c)) (Inl RateLimitError)"
  using assms
proof (induction ws arbitrary: c)
  case Nil
  show ?case by simp
next
  case (Cons w ws)
  have here: "int (clock w) - int (rateLimitWindow c) \<le> 60000"
    using Cons.prems by simp
  show ?case
  proof (cases "maxRequestsPerMinute c \<le> rateLimitCount c")
    case True
    have rest: "\<forall>w \<in> set ws. int (clock w) - int (rateLimitWindow c) \<le> 60000"
      using Cons.prems by simp
    show ?thesis
      using True Cons.IH [OF rest] checkRateLimit_in_window [OF here]
      by (simp add: checkRateLimit_series_Cons del: checkRateLimit_series.simps)
  next
    case False
    let ?c = "c\<lparr>rateLimitCount := rateLimitCount c + 1\<rparr>"
    have rest: "\<forall>w \<in> set ws. int (clock w) - int (rateLimitWindow ?c) \<le> 60000"
      using Cons.prems by simp
    have m: "min (Suc (length ws)) (maxRequestsPerMinute c - rateLimitCount c) =
             Suc (min (length ws) (maxRequestsPerMinute c - Suc (rateLimitCount c)))"
      using False by (auto simp: min_def)
    have l: "Suc (length ws) - (maxRequestsPerMinute c - rateLimitCount c) =
             length ws - (maxRequestsPerMinute c - Suc (rateLimitCount c))"
      using False by simp
    show ?thesis
      using False Cons.IH [OF rest] checkRateLimit_in_window [OF here]
      by (simp add: m l checkRateLimit_series_Cons del: checkRateLimit_series.simps)
  qed
qed

section \<open>The throttle\<close>

text \<open>
  Claim C3. \<open>checkRateLimit\<close> runs first in every \<open>makeRequest\<close>. When more than 60
  seconds have passed since the window start it sets the counter to zero and the window
  start to now; then, when the counter has reached the ceiling, it raises the local
  rate-limit error and leaves the counter as it is, and \<open>makeRequest\<close> ends with that
  error without touching the network; otherwise it adds one to the counter. Hence, from a
  fresh counter, as many calls as the ceiling allows pass inside one window and the next
  one fails.
\<close>

theorem checkRateLimit_throttle:
  assumes "checkRateLimit c w = (r, c')"
  shows "(60000 < int (clock w) - int (rateLimitWindow c) \<longrightarrow>
            rateLimitWindow c' = clock w \<and>
            (if maxRequestsPerMinute c \<le> 0 then r = Inl RateLimitError \<and> rateLimitCount c' = 0
             else r = Inr () \<and> rateLimitCount c' = 1)) \<and>
         (\<not> 60000 < int (clock w) - int (rateLimitWindow c) \<longrightarrow>
            rateLimitWindow c' = rateLimitWindow c \<and>
            (if maxRequestsPerMinute c \<le> rateLimitCount c
             then r = Inl RateLimitError \<and> rateLimitCount c' = rateLimitCount c
             else r = Inr () \<and> rateLimitCount c' = rateLimitCount c + 1)) \<and>
         (r = Inl RateLimitError \<longrightarrow>
            makeRequest R method endpoint payload retryCount c w = (Inl RateLimitError, c', w)) \<and>
         (rateLimitCount c0 = 0 \<and> length ws = maxRequestsPerMinute c0 + 1 \<and>
          (\<forall>w \<in> set ws. int (clock w) - int (rateLimitWindow c0) \<le> 60000) \<longrightarrow>
            fst (checkRateLimit_series c0 ws) =
              replicate (maxRequestsPerMinute c0) (Inr ()) @ [Inl RateLimitError])"
proof (intro conjI impI)
  assume "60000 < int (clock w) - int (rateLimitWindow c)"
  with assms show "rateLimitWindow c' = clock w"
    by (auto simp: checkRateLimit_def Let_def split: if_splits)
next
  assume "60000 < int (clock w) - int (rateLimitWindow c)"
  with assms show "if maxRequestsPerMinute c \<le> 0 then r = Inl RateLimitError \<and> rateLimitCount c' = 0
             else r = Inr () \<and> rateLimitCount c' = 1"
    by (auto simp: checkRateLimit_def Let_def split: if_splits)
next
  assume "\<not> 60000 < int (clock w) - int (rateLimitWindow c)"
  with assms show "rateLimitWindow c' = rateLimitWindow c"
    by (auto simp: checkRateLimit_def Let_def split: if_splits)
next
  assume "\<not> 60000 < int (clock w) - int (rateLimitWindow c)"
  with assms show "if maxRequestsPerMinute c \<le> rateLimitCount c
             then r = Inl RateLimitError \<and> rateLimitCount c' = rateLimitCount c
             else r = Inr () \<and> rateLimitCount c' = rateLimitCount c + 1"
    by (auto simp: checkRateLimit_def Let_def split: if_splits)
next
  assume "r = Inl RateLimitError"
  with assms show "makeRequest R method endpoint payload retryCount c w = (Inl RateLimitError, c', w)"
    by (subst makeRequest.simps) simp
next
  assume a: "rateLimitCount c0 = 0 \<and> length ws = maxRequestsPerMinute c0 + 1 \<and>
          (\<forall>w \<in> set ws. int (clock w) - int (rateLimitWindow c0) \<le> 60000)"
  then have "\<forall>w \<in> set ws. int (clock w) - int (rateLimitWindow c0) \<le> 60000"
    by simp
  from checkRateLimit_series_in_window [OF this] a
  show "fst (checkRateLimit_series c0 ws) =
              replicate (maxRequestsPerMinute c0) (Inr ()) @ [Inl RateLimitError]"
    by simp
qed

theorem checkRateLimit_throttle_witness:
  "checkRateLimit (shop_client\<lparr>rateLimitCount := 2\<rparr>) (at_time 6000)
     = (Inl RateLimitError, shop_client\<lparr>rateLimitCount := 2\<rparr>) \<and>
   \<not> 60000 < int (clock (at_time 6000)) - int (rateLimitWindow (shop_client\<lparr>rateLimitCount := 2\<rparr>)) \<and>
   makeRequest (scripted []) ''GET'' ''/v2/checkout/orders/7'' JNull 0
       (shop_client\<lparr>rateLimitCount := 2\<rparr>) (at_time 6000)
     = (Inl RateLimitError, shop_client\<lparr>rateLimitCount := 2\<rparr>, at_time 6000) \<and>
   rateLimitCount shop_client = 0 \<and>
   length [at_time 6000, at_time 7000, at_time 65000] = maxRequestsPerMinute shop_client + 1 \<and>
   int (clock (at_time 6000)) - int (rateLimitWindow shop_client) \<le> 60000 \<and>
   int (clock (at_time 7000)) - int (rateLimitWindow shop_client) \<le> 60000 \<and>
   int (clock (at_time 65000)) - int (rateLimitWindow shop_client) \<le> 60000 \<and>
   fst (checkRateLimit_series shop_client [at_time 6000, at_time 7000, at_time 65000])
     = [Inr (), Inr (), Inl RateLimitError]"
proof -
  have chk: "checkRateLimit (shop_client\<lparr>rateLimitCount := 2\<rparr>) (at_time 6000)
     = (Inl RateLimitError, shop_client\<lparr>rateLimitCount := 2\<rparr>)"
    by (simp add: checkRateLimit_def shop_client_def at_time_def)
  have pre: "rateLimitCount shop_client = 0 \<and>
     length [at_time 6000, at_time 7000, at_time 65000] = maxRequestsPerMinute shop_client + 1 \<and>
     (\<forall>w \<in> set [at_time 6000, at_time 7000, at_time 65000].
       int (clock w) - int (rateLimitWindow shop_client) \<le> 60000)"
    by (simp add: shop_client_def at_time_def)
  have two: "replicate (maxRequestsPerMinute shop_client) (Inr ()) = [Inr (), Inr () :: js_error + unit]"
    by (simp add: shop_client_def numeral_2_eq_2)
  show ?thesis
    using checkRateLimit_throttle [OF chk, of "scripted []" "''GET''" "''/v2/checkout/orders/7''" JNull 0
            shop_client "[at_time 6000, at_time 7000, at_time 65000]"] chk pre two
    by (simp add: shop_client_def at_time_def)
qed



section \<open>Error classification\<close>

text \<open>
  Claim C4. \<open>parseError\<close> classifies by the response alone. Without a response the
  result is \<open>NETWORK_ERROR\<close> (with no status and \<open>null\<close> details). With a response
  the result carries its status and payload, and the type is \<open>BAD_REQUEST\<close> for 400,
  \<open>AUTHENTICATION_FAILURE\<close> for 401, \<open>AUTHORIZATION_FAILURE\<close> for 403, \<open>NOT_FOUND\<close> for
  404, \<open>VALIDATION_ERROR\<close> for 422, \<open>RATE_LIMIT_EXCEEDED\<close> for 429,
  \<open>INTERNAL_SERVER_ERROR\<close> for 500 and \<open>UNKNOWN_ERROR\<close> for every other status. The
  client is left as it was, except that 401 clears the cached access token.
\<close>

theorem parseError_classification:
  assumes "parseError error c = (parsed, c')"
  shows "(response error = None \<longrightarrow>
            pe_type parsed = NETWORK_ERROR \<and> pe_status parsed = None \<and> pe_details parsed = JNull \<and> c' = c) \<and>
         (\<forall>r. response error = Some r \<longrightarrow>
            pe_status parsed = Some (status r) \<and> pe_details parsed = data r \<and>
            (status r = 400 \<longrightarrow> pe_type parsed = BAD_REQUEST \<and> c' = c) \<and>
            (status r = 401 \<longrightarrow> pe_type parsed = AUTHENTICATION_FAILURE \<and> c' = c\<lparr>accessToken := None\<rparr>) \<and>
            (status r = 403 \<longrightarrow> pe_type parsed = AUTHORIZATION_FAILURE \<and> c' = c) \<and>
            (status r = 404 \<longrightarrow> pe_type parsed = NOT_FOUND \<and> c' = c) \<and>
            (status r = 422 \<longrightarrow> pe_type parsed = VALIDATION_ERROR \<and> c' = c) \<and>
            (status r = 429 \<longrightarrow> pe_type parsed = RATE_LIMIT_EXCEEDED \<and> c' = c) \<and>
            (status r = 500 \<longrightarrow> pe_type parsed = INTERNAL_SERVER_ERROR \<and> c' = c) \<and>
            (status r \<notin> {400, 401, 403, 404, 422, 429, 500} \<longrightarrow> pe_type parsed = UNKNOWN_ERROR \<and> c' = c))"
  using assms
  by (auto simp: parseError_def Let_def split: option.splits if_splits)

theorem parseError_classification_witness:
  "parseError \<lparr>err_message = ''Request failed with status code 401'',
               response = Some \<lparr>status = 401, data = JObj [(''message'', JStr ''Unauthorized'')]\<rparr>\<rparr>
     (shop_client\<lparr>accessToken := Some ''token-1''\<rparr>)
   = (\<lparr>pe_type = AUTHENTICATION_FAILURE,
       pe_message = JStr ''Authentication failed. Check your credentials.'',
       pe_details = JObj [(''message'', JStr ''Unauthorized'')],
       pe_status = Some 401\<rparr>,
      shop_client\<lparr>accessToken := None\<rparr>) \<and>
   accessToken (shop_client\<lparr>accessToken := None\<rparr>) = None"
proof -
  have p: "parseError \<lparr>err_message = ''Request failed with status code 401'',
               response = Some \<lparr>status = 401, data = JObj [(''message'', JStr ''Unauthorized'')]\<rparr>\<rparr>
     (shop_client\<lparr>accessToken := Some ''token-1''\<rparr>)
   = (\<lparr>pe_type = AUTHENTICATION_FAILURE,
       pe_message = JStr ''Authentication failed. Check your credentials.'',
       pe_details = JObj [(''message'', JStr ''Unauthorized'')],
       pe_status = Some 401\<rparr>,
      shop_client\<lparr>accessToken := None\<rparr>)"
    by (simp add: parseError_def shop_client_def)
  from parseError_classification [OF p] p show ?thesis
    by simp
qed

section \<open>Retrying\<close>

text \<open>
  Claim C1, as stated, asks for a retry on every server-side (5xx) failure while the retry
  counter is below 3. The catch block compares the status with 500 only: a first attempt
  answered with 503 is thrown at once as \<open>UNKNOWN_ERROR\<close>, with no wait and no second
  call, although a later call would have succeeded.
\<close>

theorem makeRequest_503_not_retried:
  "(0::nat) < 3 \<and> (500::nat) \<le> 503 \<and> (503::nat) < 600 \<and>
   fst (makeRequest (scripted [Response 503 JNull, Response 200 (JStr ''ok'')])
          ''GET'' ''/v2/checkout/orders/7'' JNull 0 shop_client (at_time 5000))
     = Inl (ApiError UNKNOWN_ERROR (JStr ''HTTP 503 error'') (Some 503) JNull ''1-5100'') \<and>
   slept (snd (snd (makeRequest (scripted [Response 503 JNull, Response 200 (JStr ''ok'')])
          ''GET'' ''/v2/checkout/orders/7'' JNull 0 shop_client (at_time 5000)))) = [] \<and>
   length (api_calls (snd (snd (makeRequest (scripted [Response 503 JNull, Response 200 (JStr ''ok'')])
          ''GET'' ''/v2/checkout/orders/7'' JNull 0 shop_client (at_time 5000))))) = 1"
  by (simp add: makeRequest_unrolled evaluation)

lemma dispatch_request_id:
  assumes "dispatch R method endpoint payload c w = (Failed parsedError requestId, c', w')"
  shows "request_id (last (sent w')) = Some requestId"
  using assms
  by (auto simp: dispatch_def Let_def axios_def transmit_def api_request_def request_id_def
           split: prod.splits sum.splits axios_result.splits if_splits)

text \<open>
  Claim C1, amended. When a dispatched call fails, the classified error is an
  authentication failure exactly when the status is 401. \<open>makeRequest\<close> retries, after
  a wait of 1000 ms doubled per earlier retry and with the counter incremented, exactly
  when the counter is below 3 and the status is 401 or 500; in every other case, 404 and
  the other 5xx statuses among them, it throws at once an error carrying the classified
  type, the status, the response payload and the request id, which is the one sent in the
  \<open>PayPal-Request-Id\<close> header of the failed request. A call answered with 500
  three times and then served returns the payload of the fourth attempt, after waits of
  1000, 2000 and 4000 ms.
\<close>

theorem makeRequest_retry_policy:
  assumes "dispatch R method endpoint payload c w = (Failed parsedError requestId, c', w')"
  shows "(pe_type parsedError = AUTHENTICATION_FAILURE \<longleftrightarrow> pe_status parsedError = Some 401) \<and>
         request_id (last (sent w')) = Some requestId \<and>
         (retryCount < 3 \<and> (pe_status parsedError = Some 401 \<or> pe_status parsedError = Some 500) \<longrightarrow>
            makeRequest R method endpoint payload retryCount c w =
              makeRequest R method endpoint payload (retryCount + 1) c'
                (setTimeout (2 ^ retryCount * 1000) w')) \<and>
         (\<not> (retryCount < 3 \<and> (pe_status parsedError = Some 401 \<or> pe_status parsedError = Some 500)) \<longrightarrow>
            makeRequest R method endpoint payload retryCount c w =
              (Inl (ApiError (pe_type parsedError) (pe_message parsedError) (pe_status parsedError)
                      (pe_details parsedError) requestId), c', w')) \<and>
         (pe_status parsedError = Some 500 \<and>
          dispatch R method endpoint payload c' (setTimeout 1000 w') = (Failed peA ridA, cA, wA) \<and>
          pe_status peA = Some 500 \<and>
          dispatch R method endpoint payload cA (setTimeout 2000 wA) = (Failed peB ridB, cB, wB) \<and>
          pe_status peB = Some 500 \<and>
          dispatch R method endpoint payload cB (setTimeout 4000 wB) = (Returned payloadD, cD, wD) \<longrightarrow>
            makeRequest R method endpoint payload 0 c w = (Inr payloadD, cD, wD))"
proof -
  have auth: "pe_type parsedError = AUTHENTICATION_FAILURE \<longleftrightarrow> pe_status parsedError = Some 401"
    using assms
    by (auto simp: dispatch_def parseError_def Let_def
             split: prod.splits sum.splits axios_result.splits option.splits if_splits)
  have retry: "makeRequest R method endpoint payload retryCount c w =
              makeRequest R method endpoint payload (retryCount + 1) c'
                (setTimeout (2 ^ retryCount * 1000) w')"
    if "retryCount < 3 \<and> (pe_status parsedError = Some 401 \<or> pe_status parsedError = Some 500)"
    using that assms auth by (subst makeRequest_dispatch) (simp add: retried_def)
  have raise: "makeRequest R method endpoint payload retryCount c w =
              (Inl (ApiError (pe_type parsedError) (pe_message parsedError) (pe_status parsedError)
                      (pe_details parsedError) requestId), c', w')"
    if "\<not> (retryCount < 3 \<and> (pe_status parsedError = Some 401 \<or> pe_status parsedError = Some 500))"
    using that assms auth by (subst makeRequest_dispatch) (auto simp: retried_def)
  have fourth: "makeRequest R method endpoint payload 0 c w = (Inr payloadD, cD, wD)"
    if s: "pe_status parsedError = Some 500 \<and>
          dispatch R method endpoint payload c' (setTimeout 1000 w') = (Failed peA ridA, cA, wA) \<and>
          pe_status peA = Some 500 \<and>
          dispatch R method endpoint payload cA (setTimeout 2000 wA) = (Failed peB ridB, cB, wB) \<and>
          pe_status peB = Some 500 \<and>
          dispatch R method endpoint payload cB (setTimeout 4000 wB) = (Returned payloadD, cD, wD)"
  proof -
    have "makeRequest R method endpoint payload 0 c w =
            makeRequest R method endpoint payload (Suc 0) c' (setTimeout 1000 w')"
      using assms s by (subst makeRequest_dispatch) (simp add: retried_def)
    also have "\<dots> = makeRequest R method endpoint payload (Suc (Suc 0)) cA (setTimeout 2000 wA)"
      using s by (subst makeRequest_dispatch) (simp add: retried_def)
    also have "\<dots> = makeRequest R method endpoint payload (Suc (Suc (Suc 0))) cB (setTimeout 4000 wB)"
      using s by (subst makeRequest_dispatch) (simp add: retried_def)
    also have "\<dots> = (Inr payloadD, cD, wD)"
      using s by (subst makeRequest_dispatch) simp
    finally show ?thesis .
  qed
  from auth dispatch_request_id [OF assms] retry raise fourth show ?thesis
    by blast
qed

theorem makeRequest_retry_policy_witness:
  "makeRequest
     (scripted [Response 500 JNull, Response 500 JNull, Response 500 JNull, Response 200 (JStr ''ok'')])
     ''GET'' ''/v2/checkout/orders/7'' JNull 0 custom_client (at_time 5000)
   = (Inr (JStr ''ok''), served 4,
      \<lparr>clock = 12300,
       sent = [token_request custom_client, order_request 1 ''1-5100'', order_request 2 ''2-6150'',
               order_request 3 ''3-8200'', order_request 4 ''4-12250''],
       slept = [1000, 2000, 4000]\<rparr>)"
proof -
  define R where "R = scripted [Response 500 JNull, Response 500 JNull, Response 500 JNull, Response 200 (JStr ''ok'')]"
  define w1 where "w1 = \<lparr>clock = 5150,
      sent = [token_request custom_client, order_request 1 ''1-5100''], slept = []\<rparr>"
  define w2 where "w2 = \<lparr>clock = 6200,
      sent = [token_request custom_client, order_request 1 ''1-5100'', order_request 2 ''2-6150''],
      slept = [1000]\<rparr>"
  define w3 where "w3 = \<lparr>clock = 8250,
      sent = [token_request custom_client, order_request 1 ''1-5100'', order_request 2 ''2-6150'',
              order_request 3 ''3-8200''],
      slept = [1000, 2000]\<rparr>"
  define w4 where "w4 = \<lparr>clock = 12300,
      sent = [token_request custom_client, order_request 1 ''1-5100'', order_request 2 ''2-6150'',
              order_request 3 ''3-8200'', order_request 4 ''4-12250''],
      slept = [1000, 2000, 4000]\<rparr>"
  have d1: "dispatch R ''GET'' ''/v2/checkout/orders/7'' JNull custom_client (at_time 5000)
              = (Failed server_error ''1-5100'', served 1, w1)"
    by (simp add: R_def w1_def evaluation)
  have d2: "dispatch R ''GET'' ''/v2/checkout/orders/7'' JNull (served 1) (setTimeout 1000 w1)
              = (Failed server_error ''2-6150'', served 2, w2)"
    by (simp add: R_def w1_def w2_def evaluation)
  have d3: "dispatch R ''GET'' ''/v2/checkout/orders/7'' JNull (served 2) (setTimeout 2000 w2)
              = (Failed server_error ''3-8200'', served 3, w3)"
    by (simp add: R_def w2_def w3_def evaluation)
  have d4: "dispatch R ''GET'' ''/v2/checkout/orders/7'' JNull (served 3) (setTimeout 4000 w3)
              = (Returned (JStr ''ok''), served 4, w4)"
    by (simp add: R_def w3_def w4_def evaluation)
  have st: "pe_status server_error = Some 500"
    by (simp add: server_error_def)
  from makeRequest_retry_policy [OF d1, of 0 server_error "''2-6150''" "served 2" w2
         server_error "''3-8200''" "served 3" w3 "JStr ''ok''" "served 4" w4] d2 d3 d4 st
  have "makeRequest R ''GET'' ''/v2/checkout/orders/7'' JNull 0 custom_client (at_time 5000)
          = (Inr (JStr ''ok''), served 4, w4)"
    by blast
  then show ?thesis
    by (simp add: R_def w4_def)
qed

section \<open>The cached token across retries\<close>

text \<open>
  Claim C5, as stated, has the cached token invalidated before every retry. Only the 401
  branch of \<open>parseError\<close> clears it: after a 500 the token stays cached, and the retry
  one second later goes out under the same bearer string without a second exchange.
\<close>

theorem retry_after_500_reuses_token:
  "map authorization
     (sent (snd (snd (makeRequest (scripted [Response 500 JNull, Response 200 (JStr ''ok'')])
        ''GET'' ''/v2/checkout/orders/7'' JNull 0 shop_client (at_time 5000)))))
     = [Some ''Basic aWQ6c2VjcmV0'', Some ''Bearer token-1'', Some ''Bearer token-1''] \<and>
   slept (snd (snd (makeRequest (scripted [Response 500 JNull, Response 200 (JStr ''ok'')])
        ''GET'' ''/v2/checkout/orders/7'' JNull 0 shop_client (at_time 5000)))) = [1000] \<and>
   accessToken (fst (snd (dispatch (scripted [Response 500 JNull, Response 200 (JStr ''ok'')])
        ''GET'' ''/v2/checkout/orders/7'' JNull shop_client (at_time 5000)))) = Some ''token-1''"
  by (simp add: makeRequest_unrolled evaluation)

lemma dispatch_sent_exchange:
  assumes "accessToken c = None" and "checkRateLimit c w = (Inr (), c1)"
  shows "\<exists>rest. sent (snd (snd (dispatch R method endpoint payload c w))) = sent w @ token_request c # rest"
proof -
  have nofresh: "\<not> token_fresh c1 w" and tr: "token_request c1 = token_request c"
    using assms by (auto simp: token_fresh_def checkRateLimit_def token_request_def Let_def split: if_splits)
  obtain out el where te: "token_endpoint R w (token_request c) = (out, el)"
    by (cases "token_endpoint R w (token_request c)")
  show ?thesis
  proof (cases out)
    case (Refused x)
    then show ?thesis
      using assms nofresh tr te
      by (simp add: dispatch_def getAccessToken_def axios_post_token_def transmit_def)
  next
    case (Granted tok ttl)
    then show ?thesis
      using assms nofresh tr te
      by (auto simp: dispatch_def getAccessToken_def axios_post_token_def transmit_def axios_def Let_def
            split: prod.splits axios_result.splits)
  qed
qed

text \<open>
  Claim C5, amended. When a dispatched call fails as an authentication failure, the
  cached access token has been cleared, and the next pass that gets through the throttle
  starts with a fresh token exchange. When it fails in any other way, 500 included, the
  token under which the failed request was sent stays cached.
\<close>

theorem retry_token_invalidation:
  assumes "dispatch R method endpoint payload c w = (Failed parsedError requestId, c', w')"
  shows "(pe_type parsedError = AUTHENTICATION_FAILURE \<longrightarrow>
            accessToken c' = None \<and>
            (\<forall>w2 c2. checkRateLimit c' w2 = (Inr (), c2) \<longrightarrow>
               (\<exists>rest. sent (snd (snd (dispatch R method endpoint payload c' w2)))
                         = sent w2 @ token_request c' # rest))) \<and>
         (pe_type parsedError \<noteq> AUTHENTICATION_FAILURE \<longrightarrow>
            (\<exists>token. accessToken c' = Some token \<and>
               authorization (last (sent w')) = Some (''Bearer '' @ token)))"
proof (intro conjI impI)
  assume a: "pe_type parsedError = AUTHENTICATION_FAILURE"
  show none: "accessToken c' = None"
    using assms a
    by (auto simp: dispatch_def parseError_def Let_def
             split: prod.splits sum.splits axios_result.splits option.splits if_splits)
  show "\<forall>w2 c2. checkRateLimit c' w2 = (Inr (), c2) \<longrightarrow>
               (\<exists>rest. sent (snd (snd (dispatch R method endpoint payload c' w2)))
                         = sent w2 @ token_request c' # rest)"
    using dispatch_sent_exchange [OF none] by blast
next
  assume a: "pe_type parsedError \<noteq> AUTHENTICATION_FAILURE"
  obtain r c1 where chk: "checkRateLimit c w = (r, c1)"
    by (cases "checkRateLimit c w")
  obtain r2 c2 w2 where tok: "getAccessToken R c1 w = (r2, c2, w2)"
    by (cases "getAccessToken R c1 w")
  from assms chk tok obtain token where r2: "r2 = Inr token"
    by (cases r2) (auto simp: dispatch_def split: sum.splits)
  have cached: "accessToken c2 = Some token"
    using tok r2
    by (auto simp: getAccessToken_def token_fresh_def Let_def
             split: if_splits prod.splits token_outcome.splits option.splits)
  show "\<exists>token. accessToken c' = Some token \<and>
               authorization (last (sent w')) = Some (''Bearer '' @ token)"
    using assms chk tok r2 cached a
    by (auto simp: dispatch_def parseError_def Let_def axios_def transmit_def api_request_def
             authorization_def
             split: prod.splits sum.splits axios_result.splits option.splits if_splits)
qed

theorem retry_token_invalidation_witness:
  "dispatch (scripted [Response 401 JNull, Response 200 (JStr ''ok'')])
      ''GET'' ''/v2/checkout/orders/7'' JNull shop_client (at_time 5000)
     = (Failed \<lparr>pe_type = AUTHENTICATION_FAILURE,
                pe_message = JStr ''Authentication failed. Check your credentials.'',
                pe_details = JNull, pe_status = Some 401\<rparr> ''1-5100'',
        shop_client\<lparr>tokenExpiry := Some 3545100, requestCounter := 1, rateLimitCount := 1\<rparr>,
        \<lparr>clock = 5150,
         sent = [token_request shop_client,
                 api_request shop_client ''GET'' ''/v2/checkout/orders/7'' JNull ''token-1'' ''1-5100''],
         slept = []\<rparr>) \<and>
   accessToken (shop_client\<lparr>tokenExpiry := Some 3545100, requestCounter := 1, rateLimitCount := 1\<rparr>) = None \<and>
   map authorization
     (sent (snd (snd (makeRequest (scripted [Response 401 JNull, Response 200 (JStr ''ok'')])
        ''GET'' ''/v2/checkout/orders/7'' JNull 0 shop_client (at_time 5000)))))
     = [Some ''Basic aWQ6c2VjcmV0'', Some ''Bearer token-1'',
        Some ''Basic aWQ6c2VjcmV0'', Some ''Bearer token-2'']"
proof -
  have d: "dispatch (scripted [Response 401 JNull, Response 200 (JStr ''ok'')])
      ''GET'' ''/v2/checkout/orders/7'' JNull shop_client (at_time 5000)
     = (Failed \<lparr>pe_type = AUTHENTICATION_FAILURE,
                pe_message = JStr ''Authentication failed. Check your credentials.'',
                pe_details = JNull, pe_status = Some 401\<rparr> ''1-5100'',
        shop_client\<lparr>tokenExpiry := Some 3545100, requestCounter := 1, rateLimitCount := 1\<rparr>,
        \<lparr>clock = 5150,
         sent = [token_request shop_client,
                 api_request shop_client ''GET'' ''/v2/checkout/orders/7'' JNull ''token-1'' ''1-5100''],
         slept = []\<rparr>)"
    by (simp add: evaluation)
  have run: "map authorization
     (sent (snd (snd (makeRequest (scripted [Response 401 JNull, Response 200 (JStr ''ok'')])
        ''GET'' ''/v2/checkout/orders/7'' JNull 0 shop_client (at_time 5000)))))
     = [Some ''Basic aWQ6c2VjcmV0'', Some ''Bearer token-1'',
        Some ''Basic aWQ6c2VjcmV0'', Some ''Bearer token-2'']"
    by (simp add: makeRequest_unrolled evaluation)
  from retry_token_invalidation [OF d] d run show ?thesis
    by simp
qed

section \<open>Configured timeout and retry attempts\<close>

lemma api_request_timeout:
  "req_timeout (api_request c method endpoint payload token requestId) = Some 30000"
  by (simp add: api_request_def)

lemma makeRequest_gives_up_at_three:
  assumes "dispatch R method endpoint payload c w = (Failed parsedError requestId, c', w')"
  shows "makeRequest R method endpoint payload 3 c w =
           (Inl (ApiError (pe_type parsedError) (pe_message parsedError) (pe_status parsedError)
                   (pe_details parsedError) requestId), c', w')"
  using assms by (subst makeRequest_dispatch) (simp add: retried_def)

text \<open>
  Claim C9 expects \<open>makeRequest\<close> to apply the timeout and the retry ceiling given at
  construction. The constructor stores both in \<open>config\<close>, and nothing reads them again;
  for every client, as the two lemmas above say, the timeout of a request is 30000 ms and
  a call that fails at retry count 3 is thrown. So
  a client built with a 45000 ms timeout and 5 retry attempts still sends every request
  with a 30000 ms timeout and gives up after 3 retries (4 attempts) against a service
  that keeps answering 500.
\<close>

theorem makeRequest_ignores_config:
  "new_EasyPayPal custom_options bare_env (at_time 5000) = Inr custom_client \<and>
   timeout (config custom_client) = 45000 \<and>
   retryAttempts (config custom_client) = 5 \<and>
   makeRequest
     (scripted [Response 500 JNull, Response 500 JNull, Response 500 JNull,
                Response 500 JNull, Response 500 JNull, Response 500 JNull])
     ''GET'' ''/v2/checkout/orders/7'' JNull 0 custom_client (at_time 5000)
   = (Inl (ApiError INTERNAL_SERVER_ERROR (JStr ''PayPal server error. Please try again later.'')
             (Some 500) JNull ''4-12250''),
      served 4,
      \<lparr>clock = 12300,
       sent = [token_request custom_client, order_request 1 ''1-5100'', order_request 2 ''2-6150'',
               order_request 3 ''3-8200'', order_request 4 ''4-12250''],
       slept = [1000, 2000, 4000]\<rparr>) \<and>
   map req_timeout [order_request 1 ''1-5100'', order_request 2 ''2-6150'',
                    order_request 3 ''3-8200'', order_request 4 ''4-12250'']
     = [Some 30000, Some 30000, Some 30000, Some 30000]"
  by (simp add: makeRequest_unrolled evaluation new_EasyPayPal_def custom_options_def bare_env_def
        str_or_def num_or_def falsy_str_def)

section \<open>Webhook verification\<close>

text \<open>
  Claim C6, as stated, has \<open>verifyWebhook\<close> never raise, whatever the headers. The
  five header reads that build \<open>verificationData\<close> come before the \<open>try\<close> block: with
  \<open>null\<close> (or \<open>undefined\<close>) for the headers the first read throws a \<open>TypeError\<close>
  that nothing catches, and no request is made.
\<close>

theorem verifyWebhook_null_headers:
  "verifyWebhook (scripted [Response 200 (JObj [(''verification_status'', JStr ''SUCCESS'')])])
     HeadersNull (JObj [(''id'', JStr ''WH-EVENT-1'')]) ''WH-1'' shop_client (at_time 5000)
   = (Inl TypeError, shop_client, at_time 5000)"
  by (simp add: verifyWebhook_def verificationData_def header_def)

lemma verificationData_object:
  "verificationData (HeadersObject kvs) event webhookId =
     Inr (JObj (header_field ''auth_algo'' (map_of kvs ''paypal-auth-algo'') @
                header_field ''cert_id'' (map_of kvs ''paypal-cert-id'') @
                header_field ''transmission_id'' (map_of kvs ''paypal-transmission-id'') @
                header_field ''transmission_sig'' (map_of kvs ''paypal-transmission-sig'') @
                header_field ''transmission_time'' (map_of kvs ''paypal-transmission-time'') @
                [(''webhook_id'', JStr webhookId), (''webhook_event'', event)]))"
  by (simp add: verificationData_def header_def)

text \<open>
  Claim C6, amended. Given headers that are an object, as the signature documents,
  \<open>verifyWebhook\<close> never raises: it returns a boolean, which is true exactly when the
  verification request returns a payload whose \<open>verification_status\<close> is the string
  \<open>SUCCESS\<close>; whenever the request throws (a failed call of any class, a failed token
  exchange, the local throttle) it is false, and a throttled call reaches no network at
  all. Given \<open>undefined\<close> or \<open>null\<close> it throws a \<open>TypeError\<close> and touches neither
  the client nor the network.
\<close>

theorem verifyWebhook_object_headers:
  "(headers = HeadersUndefined \<or> headers = HeadersNull \<longrightarrow>
      verifyWebhook R headers event webhookId c w = (Inl TypeError, c, w)) \<and>
   (\<forall>kvs. headers = HeadersObject kvs \<longrightarrow>
      (\<exists>payload.
         verificationData headers event webhookId = Inr payload \<and>
         (\<exists>b. fst (verifyWebhook R headers event webhookId c w) = Inr b) \<and>
         (fst (verifyWebhook R headers event webhookId c w) = Inr True \<longleftrightarrow>
            (\<exists>result. fst (makeRequest R ''POST'' ''/v1/notifications/verify-webhook-signature''
                             payload 0 c w) = Inr result \<and>
                      opt_prop result ''verification_status'' = Some (JStr ''SUCCESS''))) \<and>
         (\<forall>e. fst (makeRequest R ''POST'' ''/v1/notifications/verify-webhook-signature''
                     payload 0 c w) = Inl e \<longrightarrow>
              fst (verifyWebhook R headers event webhookId c w) = Inr False) \<and>
         (fst (checkRateLimit c w) = Inl RateLimitError \<longrightarrow>
              verifyWebhook R headers event webhookId c w = (Inr False, snd (checkRateLimit c w), w)) \<and>
         snd (verifyWebhook R headers event webhookId c w) =
           snd (makeRequest R ''POST'' ''/v1/notifications/verify-webhook-signature''
                  payload 0 c w)))"
proof (intro conjI impI allI)
  assume "headers = HeadersUndefined \<or> headers = HeadersNull"
  then show "verifyWebhook R headers event webhookId c w = (Inl TypeError, c, w)"
    by (auto simp: verifyWebhook_def verificationData_def header_def)
next
  fix kvs
  assume h: "headers = HeadersObject kvs"
  obtain payload where p: "verificationData headers event webhookId = Inr payload"
    using h verificationData_object [of kvs event webhookId] by simp
  obtain r c' w' where m: "makeRequest R ''POST'' ''/v1/notifications/verify-webhook-signature''
                       payload 0 c w = (r, c', w')"
    by (cases "makeRequest R ''POST'' ''/v1/notifications/verify-webhook-signature'' payload 0 c w")
  have throttle: "verifyWebhook R headers event webhookId c w = (Inr False, snd (checkRateLimit c w), w)"
    if lim: "fst (checkRateLimit c w) = Inl RateLimitError"
  proof -
    obtain c1 where chk: "checkRateLimit c w = (Inl RateLimitError, c1)"
      using lim by (cases "checkRateLimit c w") auto
    then have "makeRequest R ''POST'' ''/v1/notifications/verify-webhook-signature'' payload 0 c w
               = (Inl RateLimitError, c1, w)"
      by (subst makeRequest.simps) simp
    with chk p show ?thesis
      by (simp add: verifyWebhook_def)
  qed
  have rest: "(\<exists>b. fst (verifyWebhook R headers event webhookId c w) = Inr b) \<and>
         (fst (verifyWebhook R headers event webhookId c w) = Inr True \<longleftrightarrow>
            (\<exists>result. fst (makeRequest R ''POST'' ''/v1/notifications/verify-webhook-signature''
                             payload 0 c w) = Inr result \<and>
                      opt_prop result ''verification_status'' = Some (JStr ''SUCCESS''))) \<and>
         (\<forall>e. fst (makeRequest R ''POST'' ''/v1/notifications/verify-webhook-signature''
                     payload 0 c w) = Inl e \<longrightarrow>
              fst (verifyWebhook R headers event webhookId c w) = Inr False) \<and>
         (fst (checkRateLimit c w) = Inl RateLimitError \<longrightarrow>
              verifyWebhook R headers event webhookId c w = (Inr False, snd (checkRateLimit c w), w)) \<and>
         snd (verifyWebhook R headers event webhookId c w) =
           snd (makeRequest R ''POST'' ''/v1/notifications/verify-webhook-signature''
                  payload 0 c w)"
  proof (cases r)
    case (Inl e)
    with m p throttle show ?thesis
      by (auto simp: verifyWebhook_def)
  next
    case (Inr result)
    with m p throttle show ?thesis
      by (cases "result = JNull") (auto simp: verifyWebhook_def read_prop_def)
  qed
  with p show "\<exists>payload.
         verificationData headers event webhookId = Inr payload \<and>
         (\<exists>b. fst (verifyWebhook R headers event webhookId c w) = Inr b) \<and>
         (fst (verifyWebhook R headers event webhookId c w) = Inr True \<longleftrightarrow>
            (\<exists>result. fst (makeRequest R ''POST'' ''/v1/notifications/verify-webhook-signature''
                             payload 0 c w) = Inr result \<and>
                      opt_prop result ''verification_status'' = Some (JStr ''SUCCESS''))) \<and>
         (\<forall>e. fst (makeRequest R ''POST'' ''/v1/notifications/verify-webhook-signature''
                     payload 0 c w) = Inl e \<longrightarrow>
              fst (verifyWebhook R headers event webhookId c w) = Inr False) \<and>
         (fst (checkRateLimit c w) = Inl RateLimitError \<longrightarrow>
              verifyWebhook R headers event webhookId c w = (Inr False, snd (checkRateLimit c w), w)) \<and>
         snd (verifyWebhook R headers event webhookId c w) =
           snd (makeRequest R ''POST'' ''/v1/notifications/verify-webhook-signature''
                  payload 0 c w)"
    by blast
qed

theorem verifyWebhook_object_headers_witness:
  "verifyWebhook (scripted [Response 200 (JObj [(''verification_status'', JStr ''SUCCESS'')])])
     HeadersUndefined (JObj [(''id'', JStr ''WH-EVENT-1'')]) ''WH-1'' shop_client (at_time 5000)
     = (Inl TypeError, shop_client, at_time 5000) \<and>
   fst (verifyWebhook (scripted [Response 200 (JObj [(''verification_status'', JStr ''SUCCESS'')])])
          (HeadersObject [(''paypal-auth-algo'', ''SHA256withRSA''), (''paypal-cert-id'', ''CERT-1'')])
          (JObj [(''id'', JStr ''WH-EVENT-1'')]) ''WH-1'' shop_client (at_time 5000)) = Inr True \<and>
   fst (verifyWebhook (scripted [])
          (HeadersObject [(''paypal-auth-algo'', ''SHA256withRSA''), (''paypal-cert-id'', ''CERT-1'')])
          (JObj [(''id'', JStr ''WH-EVENT-1'')]) ''WH-1'' shop_client (at_time 5000)) = Inr False \<and>
   fst (checkRateLimit (shop_client\<lparr>rateLimitCount := 2\<rparr>) (at_time 5000)) = Inl RateLimitError \<and>
   verifyWebhook (scripted [Response 200 (JObj [(''verification_status'', JStr ''SUCCESS'')])])
          (HeadersObject [(''paypal-auth-algo'', ''SHA256withRSA''), (''paypal-cert-id'', ''CERT-1'')])
          (JObj [(''id'', JStr ''WH-EVENT-1'')]) ''WH-1'' (shop_client\<lparr>rateLimitCount := 2\<rparr>) (at_time 5000)
     = (Inr False, shop_client\<lparr>rateLimitCount := 2\<rparr>, at_time 5000)"
proof -
  let ?kvs = "[(''paypal-auth-algo'', ''SHA256withRSA''), (''paypal-cert-id'', ''CERT-1'')]"
  let ?event = "JObj [(''id'', JStr ''WH-EVENT-1'')]"
  let ?ok = "scripted [Response 200 (JObj [(''verification_status'', JStr ''SUCCESS'')])]"
  let ?payload = "JObj [(''auth_algo'', JStr ''SHA256withRSA''), (''cert_id'', JStr ''CERT-1''),
                        (''webhook_id'', JStr ''WH-1''), (''webhook_event'', ?event)]"
  have payload: "verificationData (HeadersObject ?kvs) ?event ''WH-1'' = Inr ?payload"
    by (simp add: verificationData_def header_def header_field_def)
  have good: "fst (makeRequest ?ok ''POST'' ''/v1/notifications/verify-webhook-signature''
                 ?payload 0 shop_client (at_time 5000))
              = Inr (JObj [(''verification_status'', JStr ''SUCCESS'')])"
    by (simp add: makeRequest_unrolled evaluation)
  have bad: "fst (makeRequest (scripted []) ''POST'' ''/v1/notifications/verify-webhook-signature''
                 ?payload 0 shop_client (at_time 5000))
              = Inl (ApiError NETWORK_ERROR (JStr ''socket hang up'') None JNull ''1-5100'')"
    by (simp add: makeRequest_unrolled evaluation)
  have lim: "checkRateLimit (shop_client\<lparr>rateLimitCount := 2\<rparr>) (at_time 5000)
              = (Inl RateLimitError, shop_client\<lparr>rateLimitCount := 2\<rparr>)"
    by (simp add: evaluation)
  have "verifyWebhook ?ok HeadersUndefined ?event ''WH-1'' shop_client (at_time 5000)
          = (Inl TypeError, shop_client, at_time 5000)"
    using verifyWebhook_object_headers [of HeadersUndefined ?ok ?event "''WH-1''" shop_client "at_time 5000"]
    by simp
  moreover have "fst (verifyWebhook ?ok (HeadersObject ?kvs) ?event ''WH-1'' shop_client (at_time 5000)) = Inr True"
    using verifyWebhook_object_headers [of "HeadersObject ?kvs" ?ok ?event "''WH-1''" shop_client "at_time 5000"]
      payload good
    by auto
  moreover have "fst (verifyWebhook (scripted []) (HeadersObject ?kvs) ?event ''WH-1'' shop_client (at_time 5000)) = Inr False"
    using verifyWebhook_object_headers [of "HeadersObject ?kvs" "scripted []" ?event "''WH-1''" shop_client "at_time 5000"]
      payload bad
    by auto
  moreover have "verifyWebhook ?ok (HeadersObject ?kvs) ?event ''WH-1'' (shop_client\<lparr>rateLimitCount := 2\<rparr>) (at_time 5000)
     = (Inr False, shop_client\<lparr>rateLimitCount := 2\<rparr>, at_time 5000)"
    using verifyWebhook_object_headers [of "HeadersObject ?kvs" ?ok ?event "''WH-1''"
            "shop_client\<lparr>rateLimitCount := 2\<rparr>" "at_time 5000"] lim
    by auto
  ultimately show ?thesis
    using lim by simp
qed

section \<open>Token caching\<close>

text \<open>
  Claim C2. A token is cached when \<open>accessToken\<close> holds a non-empty string.
  \<open>getAccessToken\<close> returns the cached token, sending nothing and changing nothing,
  whenever a token is cached and the clock is strictly before the stored expiry. In every
  other case it sends exactly one client-credentials request, with HTTP Basic
  authentication made of the Base64 of \<open>clientId:clientSecret\<close>; when that is granted
  it stores the token with the expiry "time of the grant + \<open>expires_in\<close> seconds - one
  minute" and returns the new token, and when it is refused it throws and keeps the state.
  After a grant, a later call strictly before that expiry makes no second exchange, and a
  call at or after it makes exactly one.
\<close>

theorem getAccessToken_caching:
  "(token_fresh c w \<longleftrightarrow>
      (\<exists>t e. accessToken c = Some t \<and> t \<noteq> [] \<and> tokenExpiry c = Some e \<and> int (clock w) < e)) \<and>
   (token_fresh c w \<longrightarrow> getAccessToken R c w = (Inr (the (accessToken c)), c, w)) \<and>
   (\<not> token_fresh c w \<and> token_endpoint R w (token_request c) = (Granted access_token expires_in, elapsed) \<longrightarrow>
      getAccessToken R c w =
        (Inr access_token,
         c\<lparr>accessToken := Some access_token,
           tokenExpiry := Some (int (clock w + elapsed) + expires_in * 1000 - 60000)\<rparr>,
         w\<lparr>clock := clock w + elapsed, sent := sent w @ [token_request c]\<rparr>)) \<and>
   (\<not> token_fresh c w \<and> token_endpoint R w (token_request c) = (Refused description, elapsed) \<longrightarrow>
      getAccessToken R c w =
        (Inl (AuthError description), c,
         w\<lparr>clock := clock w + elapsed, sent := sent w @ [token_request c]\<rparr>)) \<and>
   token_request c =
     \<lparr>req_method = ''POST'', req_url = baseURL c @ ''/v1/oauth2/token'',
      req_headers = [(''Authorization'', ''Basic '' @ base64 (clientId c @ '':'' @ clientSecret c)),
                     (''Content-Type'', ''application/x-www-form-urlencoded'')],
      req_body = FormBody ''grant_type=client_credentials'', req_timeout = None\<rparr> \<and>
   (\<not> token_fresh c w \<and> token_endpoint R w (token_request c) = (Granted access_token expires_in, elapsed) \<and>
    access_token \<noteq> [] \<and> getAccessToken R c w = (r, c', w') \<longrightarrow>
      (int (clock w2) < int (clock w') + expires_in * 1000 - 60000 \<longrightarrow>
         getAccessToken R2 c' w2 = (Inr access_token, c', w2)) \<and>
      (int (clock w') + expires_in * 1000 - 60000 \<le> int (clock w2) \<longrightarrow>
         sent (snd (snd (getAccessToken R2 c' w2))) = sent w2 @ [token_request c']))"
proof -
  have fresh: "token_fresh c w \<longleftrightarrow>
      (\<exists>t e. accessToken c = Some t \<and> t \<noteq> [] \<and> tokenExpiry c = Some e \<and> int (clock w) < e)"
    by (auto simp: token_fresh_def split: option.splits)
  have hit: "getAccessToken R c w = (Inr (the (accessToken c)), c, w)" if "token_fresh c w"
    using that by (simp add: getAccessToken_def)
  have grant: "getAccessToken R c w =
        (Inr access_token,
         c\<lparr>accessToken := Some access_token,
           tokenExpiry := Some (int (clock w + elapsed) + expires_in * 1000 - 60000)\<rparr>,
         w\<lparr>clock := clock w + elapsed, sent := sent w @ [token_request c]\<rparr>)"
    if "\<not> token_fresh c w \<and> token_endpoint R w (token_request c) = (Granted access_token expires_in, elapsed)"
    using that by (simp add: getAccessToken_def axios_post_token_def transmit_def)
  have refuse: "getAccessToken R c w =
        (Inl (AuthError description), c,
         w\<lparr>clock := clock w + elapsed, sent := sent w @ [token_request c]\<rparr>)"
    if "\<not> token_fresh c w \<and> token_endpoint R w (token_request c) = (Refused description, elapsed)"
    using that by (simp add: getAccessToken_def axios_post_token_def transmit_def)
  have request: "token_request c =
     \<lparr>req_method = ''POST'', req_url = baseURL c @ ''/v1/oauth2/token'',
      req_headers = [(''Authorization'', ''Basic '' @ base64 (clientId c @ '':'' @ clientSecret c)),
                     (''Content-Type'', ''application/x-www-form-urlencoded'')],
      req_body = FormBody ''grant_type=client_credentials'', req_timeout = None\<rparr>"
    by (simp add: token_request_def)
  have later: "(int (clock w2) < int (clock w') + expires_in * 1000 - 60000 \<longrightarrow>
         getAccessToken R2 c' w2 = (Inr access_token, c', w2)) \<and>
      (int (clock w') + expires_in * 1000 - 60000 \<le> int (clock w2) \<longrightarrow>
         sent (snd (snd (getAccessToken R2 c' w2))) = sent w2 @ [token_request c'])"
    if h: "\<not> token_fresh c w \<and> token_endpoint R w (token_request c) = (Granted access_token expires_in, elapsed) \<and>
    access_token \<noteq> [] \<and> getAccessToken R c w = (r, c', w')"
  proof -
    from h grant have c': "c' = c\<lparr>accessToken := Some access_token,
           tokenExpiry := Some (int (clock w + elapsed) + expires_in * 1000 - 60000)\<rparr>"
      and w': "clock w' = clock w + elapsed"
      by auto
    have f: "token_fresh c' w2 \<longleftrightarrow> int (clock w2) < int (clock w') + expires_in * 1000 - 60000"
      using h c' w' by (auto simp: token_fresh_def)
    show ?thesis
    proof (intro conjI impI)
      assume "int (clock w2) < int (clock w') + expires_in * 1000 - 60000"
      with f c' show "getAccessToken R2 c' w2 = (Inr access_token, c', w2)"
        by (simp add: getAccessToken_def)
    next
      assume "int (clock w') + expires_in * 1000 - 60000 \<le> int (clock w2)"
      with f have "\<not> token_fresh c' w2"
        by simp
      then show "sent (snd (snd (getAccessToken R2 c' w2))) = sent w2 @ [token_request c']"
        by (auto simp: getAccessToken_def axios_post_token_def transmit_def
                 split: prod.splits token_outcome.splits)
    qed
  qed
  from fresh hit grant refuse request later show ?thesis
    by blast
qed

theorem getAccessToken_caching_witness:
  "\<not> token_fresh shop_client (at_time 5000) \<and>
   token_endpoint (scripted []) (at_time 5000) (token_request shop_client) = (Granted ''token-1'' 3600, 100) \<and>
   getAccessToken (scripted []) shop_client (at_time 5000)
     = (Inr ''token-1'',
        shop_client\<lparr>accessToken := Some ''token-1'', tokenExpiry := Some 3545100\<rparr>,
        \<lparr>clock = 5100, sent = [token_request shop_client], slept = []\<rparr>) \<and>
   getAccessToken (scripted [])
       (shop_client\<lparr>accessToken := Some ''token-1'', tokenExpiry := Some 3545100\<rparr>)
       \<lparr>clock = 3545099, sent = [token_request shop_client], slept = []\<rparr>
     = (Inr ''token-1'',
        shop_client\<lparr>accessToken := Some ''token-1'', tokenExpiry := Some 3545100\<rparr>,
        \<lparr>clock = 3545099, sent = [token_request shop_client], slept = []\<rparr>) \<and>
   sent (snd (snd (getAccessToken (scripted [])
       (shop_client\<lparr>accessToken := Some ''token-1'', tokenExpiry := Some 3545100\<rparr>)
       \<lparr>clock = 3545100, sent = [token_request shop_client], slept = []\<rparr>)))
     = [token_request shop_client, token_request shop_client]"
proof -
  let ?c = "shop_client\<lparr>accessToken := Some ''token-1'', tokenExpiry := Some 3545100\<rparr>"
  let ?w = "\<lparr>clock = 5100, sent = [token_request shop_client], slept = []\<rparr>"
  have stale: "\<not> token_fresh shop_client (at_time 5000)"
    by (simp add: evaluation)
  have grant: "token_endpoint (scripted []) (at_time 5000) (token_request shop_client)
                 = (Granted ''token-1'' 3600, 100)"
    by (simp add: evaluation)
  have first: "getAccessToken (scripted []) shop_client (at_time 5000) = (Inr ''token-1'', ?c, ?w)"
    by (simp add: evaluation)
  have same: "token_request ?c = token_request shop_client"
    by (simp add: token_request_def)
  have named: "''token-1'' \<noteq> []"
    by simp
  let ?before = "\<lparr>clock = 3545099, sent = [token_request shop_client], slept = []\<rparr>"
  let ?at = "\<lparr>clock = 3545100, sent = [token_request shop_client], slept = []\<rparr>"
  have early: "int (clock ?before) < int (clock ?w) + 3600 * 1000 - 60000"
    by simp
  have late: "int (clock ?w) + 3600 * 1000 - 60000 \<le> int (clock ?at)"
    by simp
  have "getAccessToken (scripted []) ?c ?before = (Inr ''token-1'', ?c, ?before)"
    using getAccessToken_caching [where c = shop_client and w = "at_time 5000" and R = "scripted []"
            and access_token = "''token-1''" and expires_in = 3600 and elapsed = 100
            and r = "Inr ''token-1''" and c' = ?c and w' = ?w and ?R2.0 = "scripted []"
            and ?w2.0 = ?before] stale grant first named early
    by blast
  moreover have "sent (snd (snd (getAccessToken (scripted []) ?c ?at)))
     = [token_request shop_client, token_request shop_client]"
  proof -
    have "sent (snd (snd (getAccessToken (scripted []) ?c ?at))) = sent ?at @ [token_request ?c]"
      using getAccessToken_caching [where c = shop_client and w = "at_time 5000" and R = "scripted []"
            and access_token = "''token-1''" and expires_in = 3600 and elapsed = 100
            and r = "Inr ''token-1''" and c' = ?c and w' = ?w and ?R2.0 = "scripted []"
            and ?w2.0 = ?at] stale grant first named late
      by blast
    with same show ?thesis
      by simp
  qed
  ultimately show ?thesis
    using stale grant first by simp
qed

section \<open>Amount validation\<close>

lemma validateAmount_not_a_number:
  "js_typeof amount \<noteq> ''number'' \<Longrightarrow> validateAmount amount currency = False"
  by (simp add: validateAmount_def)

lemma validateAmount_not_positive:
  "js_le n (Finite 0) \<Longrightarrow> validateAmount (JSNumber n) currency = False"
  by (simp add: validateAmount_def)

lemma validateAmount_positive:
  assumes "currency \<notin> set Object_prototype" and "0 < q"
  shows "validateAmount (JSNumber (Finite q)) currency = (100 \<le> q)"
proof (cases "map_of minimums currency")
  case None
  with assms show ?thesis
    by (auto simp: validateAmount_def minimums_get_def minimum_operand_def js_ge_def Object_prototype_def)
next
  case (Some m)
  then have "m = 100"
    by (auto simp: minimums_def split: if_splits)
  with Some assms show ?thesis
    by (simp add: validateAmount_def minimums_get_def minimum_operand_def js_ge_def)
qed

text \<open>
  Claim C8 holds for non-numbers, for amounts that are not positive, and for positive
  amounts under every currency code that is no property name of \<open>Object.prototype\<close>, as
  the three lemmas above show. For a currency code such as \<open>constructor\<close>, which has no
  configured minimum, the lookup finds an inherited function, the default of 100 is not
  taken, and the comparison with it is false: 1000 minor units are rejected, where the
  claim gives the minimum 100 and so acceptance, as for \<open>CAD\<close>.
\<close>

theorem validateAmount_inherited_minimum:
  "map_of minimums ''constructor'' = None \<and>
   validateAmount (JSNumber (Finite 1000)) ''constructor'' = False \<and>
   map_of minimums ''CAD'' = None \<and>
   validateAmount (JSNumber (Finite 1000)) ''CAD'' = True"
  by (simp add: validateAmount_def minimums_get_def minimums_def Object_prototype_def
        minimum_operand_def js_ge_def)

section \<open>Currency formatting\<close>

lemma floor_numeral_quotient:
  "\<lfloor>(numeral a :: rat) / numeral b\<rfloor> = numeral a div numeral b"
  by (metis floor_divide_of_int_eq of_int_numeral)

lemmas arithmetic =
  formatCurrency_def toFixed2_def js_divide_def binade_def round_half_even_def compute_bitlen
  floor_numeral_quotient two_decimals_def string_of_nat.simps digit_def Let_def

text \<open>
  Claim C7, as stated, covers every integer amount. The quotient \<open>amount / 100\<close> is a
  binary64 value, and from \<open>100 * 2^46\<close> minor units on these lie further apart than a
  hundredth: for 7036874417766401 the nearest one is 70368744177664.015625, which
  \<open>toFixed(2)\<close> renders with the digits \<open>.02\<close> where the amount ends in \<open>01\<close>.
\<close>

theorem formatCurrency_beyond_precision:
  "formatCurrency 7036874417766401 ''USD''
     = \<lparr>currency_code = ''USD'', value_text = Digits ''70368744177664.02''\<rparr> \<and>
   two_decimals 7036874417766401 = ''70368744177664.01''"
  by (simp add: arithmetic)

lemma string_of_nat_nonempty: "string_of_nat n \<noteq> []"
  by (subst string_of_nat.simps) simp

lemma digit_0: "digit 0 = CHR ''0''"
  by (simp add: digit_def)

lemma point_before_last_two:
  "(let m = string_of_nat n;
        m = (if length m \<le> 2 then replicate (3 - length m) CHR ''0'' @ m else m);
        k = length m
    in take (k - 2) m @ ''.'' @ drop (k - 2) m)
   = string_of_nat (n div 100) @ ''.'' @ [digit (n div 10), digit n]"
proof -
  consider "n < 10" | "10 \<le> n" "n < 100" | "100 \<le> n"
    by linarith
  then show ?thesis
  proof cases
    case 1
    then have "string_of_nat n = [digit n]" "n div 100 = 0" "n div 10 = 0"
      by (simp_all add: string_of_nat.simps)
    then show ?thesis
      by (simp add: string_of_nat.simps [of 0] digit_0 numeral_3_eq_3 numeral_2_eq_2)
  next
    case 2
    then have "n div 10 < 10"
      by presburger
    with 2 have "string_of_nat n = [digit (n div 10), digit n]" "n div 100 = 0"
      by (simp_all add: string_of_nat.simps [of n] string_of_nat.simps [of "n div 10"])
    then show ?thesis
      by (simp add: string_of_nat.simps [of 0] digit_0 numeral_3_eq_3 numeral_2_eq_2)
  next
    case 3
    then have "10 \<le> n div 10"
      by presburger
    with 3 have s: "string_of_nat n = string_of_nat (n div 100) @ [digit (n div 10), digit n]"
      by (simp add: string_of_nat.simps [of n] string_of_nat.simps [of "n div 10"] div_mult2_eq [symmetric])
    have "string_of_nat (n div 100) \<noteq> []"
      by (rule string_of_nat_nonempty)
    with s show ?thesis
      by (simp add: Let_def)
  qed
qed

lemma round_half_even_near: "\<bar>of_int (round_half_even r) - r\<bar> \<le> 1 / 2"
proof -
  have "of_int \<lfloor>r\<rfloor> \<le> r" "r < of_int \<lfloor>r\<rfloor> + 1"
    by linarith+
  then show ?thesis
    by (auto simp: round_half_even_def Let_def)
qed

lemma binade_less:
  assumes "0 < a" and "0 < b" and "a < 2 ^ K * b"
  shows "binade a b < int K"
proof -
  define k where "k = bitlen a - bitlen b"
  have ra: "(of_int a :: rat) < 2 ^ K * of_int b"
    using assms(3) by (metis of_int_less_iff of_int_mult of_int_numeral of_int_power)
  have kK: "k \<le> int K"
  proof (rule ccontr)
    assume "\<not> k \<le> int K"
    then have big: "int K + bitlen b \<le> bitlen a - 1"
      by (simp add: k_def)
    have nb: "0 \<le> bitlen b" by (rule bitlen_nonneg)
    have "2 ^ K * b < 2 ^ K * 2 ^ nat (bitlen b)"
      using bitlen_bounds [OF assms(2)] by simp
    also have "\<dots> = 2 ^ (K + nat (bitlen b))"
      by (simp add: power_add)
    also have "\<dots> \<le> 2 ^ nat (bitlen a - 1)"
      using big nb by (intro power_increasing) auto
    also have "\<dots> \<le> a"
      using bitlen_bounds [OF assms(1)] by simp
    finally show False
      using assms(3) by simp
  qed
  show ?thesis
  proof (cases "(2 powi k) * (of_int b :: rat) \<le> of_int a")
    case True
    then have "(2 powi k) * (of_int b :: rat) < 2 ^ K * of_int b"
      using ra by simp
    then have "(2::rat) powi k < 2 powi (int K)"
      using assms(2) by simp
    then have "k < int K"
      using power_int_increasing [of "int K" k "2::rat"] by (cases "k < int K") auto
    with True show ?thesis
      by (simp add: binade_def k_def)
  next
    case False
    with kK show ?thesis
      by (simp add: binade_def k_def)
  qed
qed


lemma js_divide_100_near:
  assumes "0 < a" and "a < 7036874417766400"
  shows "\<bar>js_divide a 100 - of_int a / 100\<bar> \<le> 1 / 256"
proof -
  define ulp :: rat where "ulp = 2 powi (binade a 100 - 52)"
  define r :: rat where "r = of_int a / 100 / ulp"
  have "a < 2 ^ 46 * 100"
    using assms(2) by simp
  with assms(1) have "binade a 100 < int 46"
    by (intro binade_less) simp_all
  then have "binade a 100 - 52 \<le> - 7"
    by simp
  then have "ulp \<le> 2 powi (- 7)"
    unfolding ulp_def by (intro power_int_increasing) simp_all
  then have small: "ulp \<le> 1 / 128"
    by simp
  have pos: "0 < ulp"
    by (simp add: ulp_def)
  have "js_divide a 100 = of_int (round_half_even r) * ulp"
    using assms(1) by (simp add: js_divide_def Let_def ulp_def r_def)
  moreover have "of_int a / 100 = r * ulp"
    using pos by (simp add: r_def)
  ultimately have "\<bar>js_divide a 100 - of_int a / 100\<bar> = \<bar>of_int (round_half_even r) - r\<bar> * ulp"
    using pos by (simp add: abs_mult left_diff_distrib [symmetric])
  also have "\<dots> \<le> 1 / 2 * ulp"
    using round_half_even_near [of r] pos by (intro mult_right_mono) simp_all
  also have "\<dots> \<le> 1 / 256"
    using small by simp
  finally show ?thesis .
qed

lemma js_divide_minus: "js_divide (- a) b = - js_divide a b"
  by (simp add: js_divide_def Let_def sgn_if)

lemma toFixed2_js_divide_100:
  assumes "0 < a" and "a < 7036874417766400"
  shows "toFixed2 (js_divide a 100) =
           Digits (string_of_nat (nat a div 100) @ ''.'' @ [digit (nat a div 10), digit (nat a)])"
    and "toFixed2 (- js_divide a 100) =
           Digits (''-'' @ string_of_nat (nat a div 100) @ ''.'' @ [digit (nat a div 10), digit (nat a)])"
proof -
  define x where "x = js_divide a 100"
  have near: "\<bar>x - of_int a / 100\<bar> \<le> 1 / 256"
    unfolding x_def by (rule js_divide_100_near [OF assms])
  have a1: "(1::rat) \<le> of_int a" and a2: "(of_int a :: rat) < 7036874417766400"
    using assms by (simp_all add: of_int_less_iff [of a 7036874417766400, where ?'a = rat, simplified])
  have lo: "of_int a / 100 - 1 / 256 \<le> x" and hi: "x \<le> of_int a / 100 + 1 / 256"
    using near by linarith+
  have xpos: "0 < x"
    using lo a1 by linarith
  have below: "\<bar>x\<bar> < 10 ^ 21"
    using hi a2 xpos by simp
  have "\<lfloor>x * 100 + 1 / 2\<rfloor> = a"
  proof (rule floor_unique)
    show "of_int a \<le> x * 100 + 1 / 2"
      using lo by linarith
    show "x * 100 + 1 / 2 < of_int a + 1"
      using hi by linarith
  qed
  then have n: "nat \<lfloor>\<bar>x\<bar> * 100 + 1 / 2\<rfloor> = nat a"
    using xpos by simp
  show "toFixed2 (js_divide a 100) =
           Digits (string_of_nat (nat a div 100) @ ''.'' @ [digit (nat a div 10), digit (nat a)])"
    using xpos below n point_before_last_two [of "nat a"]
    by (simp add: toFixed2_def x_def [symmetric] Let_def)
  show "toFixed2 (- js_divide a 100) =
           Digits (''-'' @ string_of_nat (nat a div 100) @ ''.'' @ [digit (nat a div 10), digit (nat a)])"
    using xpos below n point_before_last_two [of "nat a"]
    by (simp add: toFixed2_def x_def [symmetric] Let_def)
qed

text \<open>
  Claim C7, amended. For every currency code the \<open>currency_code\<close> field is the code
  given, and for every integer amount of magnitude below \<open>100 * 2^46\<close>
  (7036874417766400 minor units) the value field is the decimal text of
  \<open>amount / 100\<close> with exactly two digits after the point; so 2500 in USD gives
  \<open>25.00\<close> and 0 in GBP gives \<open>0.00\<close>.
\<close>

theorem formatCurrency_two_decimals:
  "currency_code (formatCurrency amount currency) = currency \<and>
   (\<bar>amount\<bar> < 7036874417766400 \<longrightarrow>
      value_text (formatCurrency amount currency) = Digits (two_decimals amount))"
proof (intro conjI impI)
  show "currency_code (formatCurrency amount currency) = currency"
    by (simp add: formatCurrency_def)
next
  assume bound: "\<bar>amount\<bar> < 7036874417766400"
  consider "amount = 0" | "0 < amount" | "amount < 0"
    by linarith
  then show "value_text (formatCurrency amount currency) = Digits (two_decimals amount)"
  proof cases
    case 1
    then show ?thesis
      by (simp add: formatCurrency_def js_divide_def toFixed2_def two_decimals_def
            string_of_nat.simps [of 0] digit_def)
  next
    case 2
    with bound toFixed2_js_divide_100(1) [of amount] show ?thesis
      by (simp add: formatCurrency_def two_decimals_def)
  next
    case 3
    then have "0 < - amount" "- amount < 7036874417766400" "nat \<bar>amount\<bar> = nat (- amount)"
      using bound by simp_all
    with toFixed2_js_divide_100(2) [of "- amount"] 3 js_divide_minus [of "- amount" 100]
    show ?thesis
      by (simp add: formatCurrency_def two_decimals_def)
  qed
qed

theorem formatCurrency_two_decimals_witness:
  "\<bar>2500 :: int\<bar> < 7036874417766400 \<and>
   formatCurrency 2500 ''USD'' = \<lparr>currency_code = ''USD'', value_text = Digits ''25.00''\<rparr> \<and>
   \<bar>0 :: int\<bar> < 7036874417766400 \<and>
   formatCurrency 0 ''GBP'' = \<lparr>currency_code = ''GBP'', value_text = Digits ''0.00''\<rparr>"
proof -
  have usd: "two_decimals 2500 = ''25.00''" and gbp: "two_decimals 0 = ''0.00''"
    by (simp_all add: two_decimals_def string_of_nat.simps digit_def)
  from formatCurrency_two_decimals [of 2500 "''USD''"] formatCurrency_two_decimals [of 0 "''GBP''"]
  show ?thesis
    by (simp add: usd gbp formatCurrency_def)
qed

end
